theory Spec2Isabelle
  imports Main "HOL-Library.Word"
begin

section \<open>The coroutine library of wajic\_coro.h\<close>

text \<open>
  The header \<^verbatim>\<open>wajic_coro.h\<close> declares six C functions whose bodies are JavaScript
  (the \<^verbatim>\<open>WAJIC_LIB\<close> macros) and share the variables and the two helper functions
  \<^verbatim>\<open>CoroHandler\<close> and \<^verbatim>\<open>CoroCtxSwitch\<close> of the \<^verbatim>\<open>CORO\<close> init block; the C function
  \<^verbatim>\<open>nanosleep\<close> is built on top of them. The JavaScript is modelled by explicit state
  passing over a record of the closure variables, the linear memory and the calls made
  to the host.

  Conventions of the model:
  \<^item> An address (a \<^verbatim>\<open>WaCoro\<close> handle, a \<^verbatim>\<open>const char*\<close>) is a \<open>nat\<close>: a byte offset into
    the WebAssembly linear memory that is below \<open>2^31\<close>, so that the JavaScript number a
    pointer arrives as is the address itself and \<^verbatim>\<open>p>>2\<close> is \<open>p div 4\<close>.
  \<^item> \<^verbatim>\<open>MU32\<close>, the \<^verbatim>\<open>Uint32Array\<close> view of the memory, is a function from word index to
    \<open>32 word\<close>; a store converts the JavaScript number modulo \<open>2^32\<close>
    (\<open>word_of_int\<close>, \<open>of_nat\<close>). The memory of the model has no upper end.
  \<^item> A JavaScript variable that may still be \<^verbatim>\<open>undefined\<close> is an \<open>option\<close>.
  \<^item> A C \<^verbatim>\<open>int\<close> argument is a \<open>32 word\<close> read by \<open>sint\<close>.
\<close>

type_synonym u32 = "32 word"
type_synonym i32 = "32 word"
type_synonym u64 = "64 word"

text \<open>
  What the dispatcher can call into the WebAssembly module: an export registered in
  \<^verbatim>\<open>coro_asms\<close>, identified by its export name and called with one argument, or the
  export bound to \<^verbatim>\<open>org_main\<close>, called with none.
\<close>

datatype callee = Export string u32 | OrgMain string

text \<open>
  The calls the library makes to its collaborators (the browser, the asyncify runtime
  of the module and the allocator of the module), in the order they are made.
\<close>

datatype host_call =
    RequestAnimationFrame
  | PostMessage
  | SetTimeout int
  | AsyncifyStopUnwind
  | AsyncifyStartRewind nat
  | AsyncifyStopRewind
  | AsyncifyStartUnwind nat
  | Malloc int
  | Free nat

text \<open>
  The state. \<open>WASM_STACK_SIZE\<close>, \<open>MStrGet\<close> and \<open>ASM\<close> are supplied by the wajic
  loader, which is not part of the header: they are parameters of the model and never
  written. \<open>ASM\<close> is the set of the names that the module exports: \<^verbatim>\<open>ASM[name]\<close> is a
  function for a name in the set and \<^verbatim>\<open>undefined\<close> for any other, and a function of
  the module is identified by its export name.
  \<open>heap\<close> is the script of the external allocator: the addresses that the successive
  calls of \<^verbatim>\<open>ASM.malloc\<close> return (\<open>0\<close> is a failed allocation, and so is every call
  after the script has run out). \<open>calls\<close> records the host calls made so far.
  \<^verbatim>\<open>coro_asms\<close> starts as \<^verbatim>\<open>[0]\<close>; index \<open>0\<close> is never called (a zero function word
  selects \<^verbatim>\<open>org_main\<close>), so the map of the model starts empty. An index of
  \<^verbatim>\<open>coro_asms\<close> that holds \<^verbatim>\<open>undefined\<close> is an index outside the map, and
  \<^verbatim>\<open>org_main\<close> is \<open>None\<close> while it is \<^verbatim>\<open>undefined\<close>.
\<close>

record coro_lib =
  WASM_STACK_SIZE :: nat
  MStrGet :: "nat \<Rightarrow> string"
  ASM :: "string set"
  main_data :: "nat option"
  coro_current :: "nat option"
  coro_count :: nat
  coro_nums :: "nat \<rightharpoonup> nat"
  coro_asms :: "nat \<rightharpoonup> string"
  org_main :: "string option"
  MU32 :: "nat \<Rightarrow> u32"
  heap :: "nat list"
  calls :: "host_call list"

definition init_lib :: "nat \<Rightarrow> (nat \<Rightarrow> string) \<Rightarrow> string set \<Rightarrow> (nat \<Rightarrow> u32) \<Rightarrow> nat list \<Rightarrow> coro_lib" where
  "init_lib stack_size strs exports mem script =
     \<lparr>WASM_STACK_SIZE = stack_size, MStrGet = strs, ASM = exports, main_data = None,
      coro_current = None, coro_count = 0, coro_nums = Map.empty, coro_asms = Map.empty,
      org_main = None, MU32 = mem, heap = script, calls = []\<rparr>"

text \<open>The number a variable yields in \<^verbatim>\<open>v>>2\<close> or as an argument: \<^verbatim>\<open>undefined\<close> gives 0.\<close>

definition js_num :: "nat option \<Rightarrow> nat" where
  "js_num v = (case v of None \<Rightarrow> 0 | Some p \<Rightarrow> p)"

text \<open>\<^verbatim>\<open>!v\<close> for a variable holding \<^verbatim>\<open>undefined\<close> or an address.\<close>

definition falsy :: "nat option \<Rightarrow> bool" where
  "falsy v = (v = None \<or> v = Some 0)"

text \<open>\<^verbatim>\<open>(coro_current>>2)+4\<close>: the word index of the state word of the current block.\<close>

definition nptr_of :: "coro_lib \<Rightarrow> nat" where
  "nptr_of s = js_num (coro_current s) div 4 + 4"

definition host :: "host_call \<Rightarrow> coro_lib \<Rightarrow> coro_lib" where
  "host c s = s\<lparr>calls := calls s @ [c]\<rparr>"

definition ASM_malloc :: "int \<Rightarrow> coro_lib \<Rightarrow> nat \<times> coro_lib" where
  "ASM_malloc bytes s =
     (case heap s of
        [] \<Rightarrow> (0, host (Malloc bytes) s)
      | a # as \<Rightarrow> (a, host (Malloc bytes) (s\<lparr>heap := as\<rparr>)))"

subsection \<open>CoroCtxSwitch\<close>

text \<open>
  \<^verbatim>\<open>(ASM.main||ASM.__main_argc_argv||ASM.__original_main||ASM.__main_void||ASM.WajicMain)\<close>:
  the first of the five names that the module exports, \<^verbatim>\<open>undefined\<close> if it exports none.
\<close>

definition main_export :: "coro_lib \<Rightarrow> string option" where
  "main_export s =
     find (\<lambda>name. name \<in> ASM s)
       [''main'', ''__main_argc_argv'', ''__original_main'', ''__main_void'', ''WajicMain'']"

text \<open>The block guarded by \<^verbatim>\<open>if (!main_data)\<close>, lines 61 to 70.\<close>

definition materialise :: "coro_lib \<Rightarrow> coro_lib" where
  "materialise s =
     (let (p, s1) = ASM_malloc (20 + int (WASM_STACK_SIZE s)) s;
          ptr = p div 4
      in s1\<lparr>org_main := main_export s, main_data := Some p, coro_current := Some p,
            MU32 := (MU32 s1)
              (ptr := of_nat (p + 20),
               ptr + 1 := of_nat (p + 20 + WASM_STACK_SIZE s),
               ptr + 2 := 0,
               ptr + 3 := 0,
               ptr + 4 := 0)\<rparr>)"

definition CoroCtxSwitch :: "int \<Rightarrow> coro_lib \<Rightarrow> bool \<times> coro_lib" where
  "CoroCtxSwitch n s =
     (let s1 = (if falsy (main_data s) then materialise s else s);
          np = nptr_of s1
      in if MU32 s1 np = 2
         then (False, host AsyncifyStopRewind (s1\<lparr>MU32 := (MU32 s1)(np := 0)\<rparr>))
         else (True, host (AsyncifyStartUnwind (js_num (coro_current s1)))
                       (s1\<lparr>MU32 := (MU32 s1)(np := word_of_int n)\<rparr>)))"

subsection \<open>The exported functions\<close>

text \<open>
  \<^verbatim>\<open>fn = coro_nums[fn_wa_export] || (coro_asms[++coro_count] = ASM[MStrGet(fn_wa_export)],
  coro_nums[fn_wa_export] = coro_count)\<close>: the index under which the export is
  registered, and the state after registering it if it was not.
\<close>

definition register_export :: "nat \<Rightarrow> coro_lib \<Rightarrow> nat \<times> coro_lib" where
  "register_export fn_wa_export s =
     (let c = coro_count s + 1
      in (c, s\<lparr>coro_count := c,
                coro_asms := (coro_asms s)
                  (c := (if MStrGet s fn_wa_export \<in> ASM s then Some (MStrGet s fn_wa_export)
                         else None)),
                coro_nums := (coro_nums s)(fn_wa_export \<mapsto> c)\<rparr>))"

definition lookup_export :: "nat \<Rightarrow> coro_lib \<Rightarrow> nat \<times> coro_lib" where
  "lookup_export fn_wa_export s =
     (case coro_nums s fn_wa_export of
        Some k \<Rightarrow> if k \<noteq> 0 then (k, s) else register_export fn_wa_export s
      | None \<Rightarrow> register_export fn_wa_export s)"

text \<open>
  The C argument \<^verbatim>\<open>fn\<close> is overwritten before it is read, so its value plays no role.
\<close>

definition WaCoroInitNew :: "u32 \<Rightarrow> nat \<Rightarrow> u32 \<Rightarrow> i32 \<Rightarrow> coro_lib \<Rightarrow> nat \<times> coro_lib" where
  "WaCoroInitNew fn fn_wa_export user_data stack_size s =
     (let size = (if stack_size = 0 then int (WASM_STACK_SIZE s) else sint stack_size);
          (fn', s1) = lookup_export fn_wa_export s;
          (res, s2) = ASM_malloc (20 + size) s1;
          ptr = res div 4
      in (res, s2\<lparr>MU32 := (MU32 s2)
              (ptr := word_of_int (int res + 20),
               ptr + 1 := word_of_int (int res + 20 + size),
               ptr + 2 := of_nat fn',
               ptr + 3 := user_data,
               ptr + 4 := 1)\<rparr>))"

definition WaCoroFree :: "nat \<Rightarrow> coro_lib \<Rightarrow> coro_lib" where
  "WaCoroFree coro s = host (Free coro) s"

definition WaCoroSwitch :: "nat \<Rightarrow> coro_lib \<Rightarrow> coro_lib" where
  "WaCoroSwitch to s =
     (let (unwinding, s1) = CoroCtxSwitch 2 s
      in if unwinding
         then s1\<lparr>coro_current := (if to \<noteq> 0 then Some to else main_data s1)\<rparr>
         else s1)"

definition WaCoroWaitAnimFrame :: "coro_lib \<Rightarrow> coro_lib" where
  "WaCoroWaitAnimFrame s = snd (CoroCtxSwitch 3 s)"

definition WaCoroYield :: "coro_lib \<Rightarrow> coro_lib" where
  "WaCoroYield s = snd (CoroCtxSwitch 4 s)"

definition WaCoroSleep :: "i32 \<Rightarrow> coro_lib \<Rightarrow> coro_lib" where
  "WaCoroSleep ms s = snd (CoroCtxSwitch (5 + (if sint ms < 0 then 0 else sint ms)) s)"

subsection \<open>CoroHandler\<close>

text \<open>
  One pass through the body of the \<^verbatim>\<open>for (;;)\<close> loop, up to the point where it returns
  or calls into the module. Calling \<^verbatim>\<open>coro_asms[fn]\<close> for an index that holds no function,
  or \<^verbatim>\<open>org_main\<close> while it is \<^verbatim>\<open>undefined\<close>, throws a TypeError out of the handler.
\<close>

datatype action = Return | Invoke callee | TypeError

definition CoroHandler_iter :: "coro_lib \<Rightarrow> action \<times> coro_lib" where
  "CoroHandler_iter s =
     (let nptr = nptr_of s; n = MU32 s nptr
      in if n = 0 then (Return, s)
         else
           let s1 = (if n = 3 then host RequestAnimationFrame s else s);
               s2 = (if n = 4 then host PostMessage s1 else s1);
               s3 = (if n > 4 then host (SetTimeout (uint n - 5)) s2 else s2)
           in if n > 2 then (Return, s3\<lparr>MU32 := (MU32 s3)(nptr := 2)\<rparr>)
              else
                let s4 = host AsyncifyStopUnwind s3;
                    s5 = (if n = 2 then host (AsyncifyStartRewind (js_num (coro_current s4))) s4
                          else s4);
                    fn = MU32 s5 (nptr - 2)
                in if fn \<noteq> 0
                   then (case coro_asms s5 (unat fn) of
                           Some f \<Rightarrow> (Invoke (Export f (MU32 s5 (nptr - 1))), s5)
                         | None \<Rightarrow> (TypeError, s5))
                   else (case org_main s5 of
                           Some f \<Rightarrow> (Invoke (OrgMain f), s5)
                         | None \<Rightarrow> (TypeError, s5)))"

text \<open>
  The loop. What the called WebAssembly function does to the state before it returns to
  the handler (by a normal return or by unwinding) is the parameter \<open>run\<close>. The loop
  need not end, so it is given fuel: \<open>None\<close> says that the handler is still looping
  after that many calls into the module.
\<close>

datatype outcome = Returned | Threw

fun CoroHandler :: "nat \<Rightarrow> (callee \<Rightarrow> coro_lib \<Rightarrow> coro_lib) \<Rightarrow> coro_lib \<Rightarrow> (outcome \<times> coro_lib) option" where
  "CoroHandler 0 run s = None"
| "CoroHandler (Suc k) run s =
     (case CoroHandler_iter s of
        (Return, s1) \<Rightarrow> Some (Returned, s1)
      | (TypeError, s1) \<Rightarrow> Some (Threw, s1)
      | (Invoke c, s1) \<Rightarrow> CoroHandler k run (run c s1))"

subsection \<open>Histories of the library\<close>

text \<open>
  The states the library can be in, together with the set of handles that
  \<^verbatim>\<open>WaCoroInitNew\<close> has returned so far. The module may call the exported functions in
  any order and may store anything anywhere in its memory; the one restriction is the
  contract of \<^verbatim>\<open>WaCoroSwitch\<close>: its argument is \<^verbatim>\<open>NULL\<close> or a handle obtained from
  \<^verbatim>\<open>WaCoroInitNew\<close>.
\<close>

inductive reach :: "coro_lib \<Rightarrow> nat set \<Rightarrow> bool" where
  start: "reach (init_lib stack_size strs exports mem script) {}"
| init_new: "reach s H \<Longrightarrow> WaCoroInitNew fn fn_wa_export user_data stack_size s = (res, s')
     \<Longrightarrow> reach s' (insert res H)"
| free: "reach s H \<Longrightarrow> reach (WaCoroFree coro s) H"
| switch: "reach s H \<Longrightarrow> to = 0 \<or> to \<in> H \<Longrightarrow> reach (WaCoroSwitch to s) H"
| wait_anim_frame: "reach s H \<Longrightarrow> reach (WaCoroWaitAnimFrame s) H"
| yield: "reach s H \<Longrightarrow> reach (WaCoroYield s) H"
| sleep: "reach s H \<Longrightarrow> reach (WaCoroSleep ms s) H"
| dispatch: "reach s H \<Longrightarrow> reach (snd (CoroHandler_iter s)) H"
| store: "reach s H \<Longrightarrow> reach (s\<lparr>MU32 := m\<rparr>) H"

text \<open>
  The stretch between two suspension points: the states reached from a state by calls
  of the library that suspend nothing (\<^verbatim>\<open>WaCoroInitNew\<close>, \<^verbatim>\<open>WaCoroFree\<close>), by stores of
  the module to its memory and by passes of the dispatcher.
\<close>

inductive between :: "coro_lib \<Rightarrow> coro_lib \<Rightarrow> bool" where
  here: "between s s"
| init_new: "between s t \<Longrightarrow> between s (snd (WaCoroInitNew fn fn_wa_export user_data stack_size t))"
| free: "between s t \<Longrightarrow> between s (WaCoroFree coro t)"
| dispatch: "between s t \<Longrightarrow> between s (snd (CoroHandler_iter t))"
| store: "between s t \<Longrightarrow> between s (t\<lparr>MU32 := m\<rparr>)"

subsection \<open>nanosleep\<close>

text \<open>
  \<^verbatim>\<open>nanosleep\<close> is C. The widths of \<^verbatim>\<open>time_t\<close> and \<^verbatim>\<open>long\<close> come from the C library
  headers, which are not part of the source, so the fields of a \<^verbatim>\<open>timespec\<close> hold the C
  values as integers; the conversion to \<^verbatim>\<open>uint64_t\<close> is \<open>word_of_int\<close> whatever the
  width, and all further arithmetic is on 64-bit words, wrapping as in C.
  The clock is a collaborator: it is the list of the \<^verbatim>\<open>timespec\<close> values that the
  successive calls of \<^verbatim>\<open>clock_gettime\<close> store. \<^verbatim>\<open>WaCoroSleep\<close> and \<^verbatim>\<open>WaCoroYield\<close> are
  seen from C, where each is a call that returns after the coroutine has been resumed;
  the calls are recorded in order. The \<^verbatim>\<open>uint64_t\<close> argument of \<^verbatim>\<open>WaCoroSleep\<close> is
  converted to \<^verbatim>\<open>int\<close> by truncation (\<open>ucast\<close>).
\<close>

record timespec =
  tv_sec :: int
  tv_nsec :: int

datatype coro_call = Sleep i32 | Yield

text \<open>\<^verbatim>\<open>((uint64_t)t.tv_sec * 1000000000 + t.tv_nsec)\<close>\<close>

definition to_ns :: "timespec \<Rightarrow> u64" where
  "to_ns t = word_of_int (tv_sec t) * 1000000000 + word_of_int (tv_nsec t)"

text \<open>
  What \<^verbatim>\<open>nanosleep\<close> leaves behind: the value returned, the contents of \<^verbatim>\<open>*rem\<close>
  (\<open>None\<close> for a null pointer), the coroutine calls made, and the value of \<^verbatim>\<open>cur\<close> with
  which the loop was left, which is the last reading of the clock before the return.
\<close>

record sleep_result =
  ret :: int
  rem_out :: "timespec option"
  waits :: "coro_call list"
  last_cur :: u64

text \<open>
  The \<^verbatim>\<open>while (cur < til)\<close> loop, by recursion on the readings of the clock still to
  come; \<open>None\<close> when the readings run out while the loop is still going.
\<close>

fun nanosleep_loop :: "u64 \<Rightarrow> u64 \<Rightarrow> timespec list \<Rightarrow> coro_call list \<Rightarrow> (u64 \<times> coro_call list) option" where
  "nanosleep_loop til cur [] done = (if cur < til then None else Some (cur, done))"
| "nanosleep_loop til cur (t # ts) done =
     (if cur < til
      then let remain = til - cur;
               call = (if remain > 4500000 then Sleep (ucast ((remain - 500000) div 1000000))
                       else Yield)
           in nanosleep_loop til (to_ns t) ts (done @ [call])
      else Some (cur, done))"

definition nanosleep :: "timespec \<Rightarrow> timespec option \<Rightarrow> timespec list \<Rightarrow> sleep_result option" where
  "nanosleep req rem clock =
     (case clock of
        [] \<Rightarrow> None
      | t # ts \<Rightarrow>
          let cur = to_ns t;
              til = cur + to_ns req
          in (case nanosleep_loop til cur ts [] of
                None \<Rightarrow> None
              | Some (cur', done) \<Rightarrow>
                  Some \<lparr>ret = 0,
                        rem_out = (case rem of None \<Rightarrow> None
                                   | Some r \<Rightarrow> Some (r\<lparr>tv_sec := 0, tv_nsec := 0\<rparr>)),
                        waits = done,
                        last_cur = cur'\<rparr>))"

subsection \<open>The host\<close>

text \<open>
  Modelled from the spec: the wake sources of the host (the timers, animation frames and
  message events of the browser), which are no code of the repository. The spec
  describes them as collaborators (sections 4.3 and 6): a timer registered with a delay
  is delivered once, after at least that many milliseconds and never earlier; a frame
  callback and a posted message are delivered once, at some later turn of the host.
  Every delivery calls \<^verbatim>\<open>CoroHandler\<close>, as the header registers it
  (\<^verbatim>\<open>setTimeout(CoroHandler, ...)\<close>, \<^verbatim>\<open>requestAnimationFrame(CoroHandler)\<close>, the
  \<^verbatim>\<open>message\<close> listener of line 116).

  The host has a clock in milliseconds, the wake sources that are registered and not
  yet delivered, and the library. JavaScript runs a callback to its end, so time passes
  between the passes of the handler (\<open>Tick\<close>), and a wake source that a pass arms is
  registered at the time of that pass.
\<close>

datatype wake = Timer int | Frame | Message

record host_state =
  clock :: int
  pending :: "wake list"
  lib :: coro_lib

text \<open>What a host call registers when it is made at the time \<open>now\<close>.\<close>

fun armed :: "int \<Rightarrow> host_call \<Rightarrow> wake list" where
  "armed now (SetTimeout d) = [Timer (now + d)]"
| "armed now RequestAnimationFrame = [Frame]"
| "armed now PostMessage = [Message]"
| "armed now c = []"

text \<open>
  One call of \<^verbatim>\<open>CoroHandler\<close> by the host: the handler runs on the library, and the wake
  sources among the host calls it has added are registered.
\<close>

definition dispatch :: "nat \<Rightarrow> (callee \<Rightarrow> coro_lib \<Rightarrow> coro_lib) \<Rightarrow> host_state \<Rightarrow> host_state option" where
  "dispatch fuel run h =
     (case CoroHandler fuel run (lib h) of
        None \<Rightarrow> None
      | Some (out, s') \<Rightarrow>
          Some (h\<lparr>pending := pending h @
                     concat (map (armed (clock h)) (drop (length (calls (lib h))) (calls s'))),
                  lib := s'\<rparr>))"





subsection \<open>The sample program\<close>

text \<open>
  The states that \<^verbatim>\<open>samples/Coroutine.c\<close> goes through at its start, with a stack size of
  64 KiB and an allocator that hands out the addresses 1024 and 70000:
  \<^verbatim>\<open>coroSub = WaCoroInitNew(FuncCoro, "FuncCoro", 0, 0)\<close>, then \<^verbatim>\<open>WaCoroSwitch(coroSub)\<close>
  in \<^verbatim>\<open>main\<close>, then the dispatcher entering \<^verbatim>\<open>FuncCoro\<close>, which calls
  \<^verbatim>\<open>WaCoroSwitch(NULL)\<close>.
\<close>

definition demo_start :: coro_lib where
  "demo_start = init_lib 65536 (\<lambda>p. ''FuncCoro'') {''main'', ''FuncCoro''} (\<lambda>i. 0) [1024, 70000]"

definition demo_created :: coro_lib where
  "demo_created = snd (WaCoroInitNew 1 2000 0 0 demo_start)"

definition demo_in_coro :: coro_lib where
  "demo_in_coro = snd (CoroHandler_iter (WaCoroSwitch 1024 demo_created))"

definition demo_back :: coro_lib where
  "demo_back = WaCoroSwitch 0 demo_in_coro"

text \<open>
  The sample program goes on: the dispatcher rewinds \<^verbatim>\<open>main\<close>, whose replayed
  \<^verbatim>\<open>WaCoroSwitch(coroSub)\<close> completes the rewind, and \<^verbatim>\<open>main\<close> calls
  \<^verbatim>\<open>WaCoroSwitch(coroSub)\<close> a second time; the dispatcher rewinds \<^verbatim>\<open>FuncCoro\<close>, whose
  replayed \<^verbatim>\<open>WaCoroSwitch(NULL)\<close> completes the rewind. \<open>demo_ended\<close> is the state in
  which a \<^verbatim>\<open>FuncCoro\<close> that returned at this point, without switching again, would
  leave the library.
\<close>

definition demo_main_resumed :: coro_lib where
  "demo_main_resumed = snd (CoroCtxSwitch 2 (snd (CoroHandler_iter demo_back)))"

definition demo_ended :: coro_lib where
  "demo_ended =
     snd (CoroCtxSwitch 2 (snd (CoroHandler_iter (WaCoroSwitch 1024 demo_main_resumed))))"


text \<open>The same start with an allocator that has nothing to give.\<close>

definition demo_oom :: coro_lib where
  "demo_oom = init_lib 65536 (\<lambda>p. ''FuncCoro'') {''main'', ''FuncCoro''} (\<lambda>i. 0) []"

text \<open>
  The sample program with an allocator that fails once, on the second allocation, which
  is the one for the main block: the state in which \<^verbatim>\<open>FuncCoro\<close> has been entered.
\<close>

definition demo_lost :: coro_lib where
  "demo_lost =
     snd (CoroHandler_iter (WaCoroSwitch 1024 (snd (WaCoroInitNew 1 2000 0 0
       (init_lib 65536 (\<lambda>p. ''FuncCoro'') {''main'', ''FuncCoro''} (\<lambda>i. 0) [1024, 0, 70000])))))"


text \<open>
  A sleep of 10 ms that starts when the clock reads 5 s, with the clock read again at
  9.6 ms, 9.9 ms and just after 10 ms.
\<close>

definition demo_req :: timespec where
  "demo_req = \<lparr>tv_sec = 0, tv_nsec = 10000000\<rparr>"

definition demo_clock :: "timespec list" where
  "demo_clock = [\<lparr>tv_sec = 5, tv_nsec = 0\<rparr>, \<lparr>tv_sec = 5, tv_nsec = 9600000\<rparr>,
                 \<lparr>tv_sec = 5, tv_nsec = 9900000\<rparr>, \<lparr>tv_sec = 5, tv_nsec = 10000001\<rparr>]"

section \<open>Properties\<close>

subsection \<open>Comparisons of state words\<close>

lemma pending_nonzero: "(3::u32) \<le> n \<Longrightarrow> n \<noteq> 0 \<and> 2 < n"
  by (auto simp: word_le_nat_alt word_less_nat_alt)

lemma pending_timer:
  assumes "(3::u32) \<le> n" "n \<noteq> 3" "n \<noteq> 4"
  shows "4 < n"
proof -
  have a: "unat n \<noteq> 3"
    using assms(2) by (auto simp: word_unat_eq_iff)
  have b: "unat n \<noteq> 4"
    using assms(3) by (auto simp: word_unat_eq_iff)
  have "3 \<le> unat n"
    using assms(1) by (simp add: word_le_nat_alt)
  with a b have "4 < unat n" by arith
  then show ?thesis by (simp add: word_less_nat_alt)
qed

lemma iter_pending:
  assumes "3 \<le> MU32 s (nptr_of s)"
  shows "CoroHandler_iter s =
     (Return, s\<lparr>MU32 := (MU32 s)(nptr_of s := 2),
        calls := calls s @ [if MU32 s (nptr_of s) = 3 then RequestAnimationFrame
                           else if MU32 s (nptr_of s) = 4 then PostMessage
                           else SetTimeout (uint (MU32 s (nptr_of s)) - 5)]\<rparr>)"
proof -
  let ?n = "MU32 s (nptr_of s)"
  consider "?n = 3" | "?n = 4" | "?n \<noteq> 3" "?n \<noteq> 4" "4 < ?n"
    using pending_timer [OF assms] by blast
  then show ?thesis
  proof cases
    case 1
    then show ?thesis by (simp add: CoroHandler_iter_def Let_def host_def)
  next
    case 2
    then show ?thesis by (simp add: CoroHandler_iter_def Let_def host_def)
  next
    case 3
    moreover have "?n \<noteq> 0" "2 < ?n" using pending_nonzero [OF assms] by simp_all
    ultimately show ?thesis by (simp add: CoroHandler_iter_def Let_def host_def)
  qed
qed

lemma iter_ended: "MU32 s (nptr_of s) = 0 \<Longrightarrow> CoroHandler_iter s = (Return, s)"
  by (simp add: CoroHandler_iter_def)

lemma ctx_rewinding:
  assumes "\<not> falsy (main_data s)" "MU32 s (nptr_of s) = 2"
  shows "CoroCtxSwitch n s =
     (False, s\<lparr>MU32 := (MU32 s)(nptr_of s := 0), calls := calls s @ [AsyncifyStopRewind]\<rparr>)"
  using assms by (simp add: CoroCtxSwitch_def Let_def host_def)

lemma ctx_unwinding:
  assumes "\<not> falsy (main_data s)" "MU32 s (nptr_of s) \<noteq> 2"
  shows "CoroCtxSwitch n s =
     (True, s\<lparr>MU32 := (MU32 s)(nptr_of s := word_of_int n),
              calls := calls s @ [AsyncifyStartUnwind (js_num (coro_current s))]\<rparr>)"
  using assms by (simp add: CoroCtxSwitch_def Let_def host_def)

lemma materialise_fields:
  "main_data (materialise s) = Some (fst (ASM_malloc (20 + int (WASM_STACK_SIZE s)) s))"
  "coro_current (materialise s) = main_data (materialise s)"
  "MU32 (materialise s) (nptr_of (materialise s)) = 0"
  "org_main (materialise s) = main_export s"
  "calls (materialise s) = calls s @ [Malloc (20 + int (WASM_STACK_SIZE s))]"
  by (simp_all add: materialise_def main_export_def ASM_malloc_def host_def nptr_of_def js_num_def Let_def
      split: list.splits prod.splits)

lemma ctx_materialising:
  assumes "falsy (main_data s)"
  shows "CoroCtxSwitch n s =
     (True, (materialise s)\<lparr>MU32 := (MU32 (materialise s))(nptr_of (materialise s) := word_of_int n),
              calls := calls (materialise s) @ [AsyncifyStartUnwind (js_num (coro_current (materialise s)))]\<rparr>)"
  using assms by (simp add: CoroCtxSwitch_def Let_def host_def materialise_fields(3))


subsection \<open>The sample program, evaluated\<close>

lemma demo_sleeping:
  "main_data (WaCoroSleep 1000 demo_start) = Some 1024"
  "coro_current (WaCoroSleep 1000 demo_start) = Some 1024"
  "MU32 (WaCoroSleep 1000 demo_start) 260 = 1005"
  "calls (WaCoroSleep 1000 demo_start) = [Malloc 65556, AsyncifyStartUnwind 1024]"
  by (simp_all add: WaCoroSleep_def CoroCtxSwitch_def materialise_def main_export_def ASM_malloc_def host_def
      demo_start_def init_lib_def falsy_def nptr_of_def js_num_def Let_def)

lemma demo_resumed:
  "main_data (snd (CoroHandler_iter (WaCoroSleep 1000 demo_start))) = Some 1024"
  "coro_current (snd (CoroHandler_iter (WaCoroSleep 1000 demo_start))) = Some 1024"
  "MU32 (snd (CoroHandler_iter (WaCoroSleep 1000 demo_start))) 260 = 2"
proof -
  have n: "nptr_of (WaCoroSleep 1000 demo_start) = 260"
    by (simp add: nptr_of_def js_num_def demo_sleeping)
  have h: "3 \<le> MU32 (WaCoroSleep 1000 demo_start) (nptr_of (WaCoroSleep 1000 demo_start))"
    by (simp add: n demo_sleeping)
  show "main_data (snd (CoroHandler_iter (WaCoroSleep 1000 demo_start))) = Some 1024"
    "coro_current (snd (CoroHandler_iter (WaCoroSleep 1000 demo_start))) = Some 1024"
    "MU32 (snd (CoroHandler_iter (WaCoroSleep 1000 demo_start))) 260 = 2"
    by (simp_all add: iter_pending [OF h] n demo_sleeping)
qed

subsection \<open>Facts about the exported functions\<close>

lemma lookup_export_keeps:
  "heap (snd (lookup_export e s)) = heap s"
  "MU32 (snd (lookup_export e s)) = MU32 s"
  "calls (snd (lookup_export e s)) = calls s"
  "coro_current (snd (lookup_export e s)) = coro_current s"
  "main_data (snd (lookup_export e s)) = main_data s"
  "org_main (snd (lookup_export e s)) = org_main s"
  "ASM (snd (lookup_export e s)) = ASM s"
  "MStrGet (snd (lookup_export e s)) = MStrGet s"
  "WASM_STACK_SIZE (snd (lookup_export e s)) = WASM_STACK_SIZE s"
  by (simp_all add: lookup_export_def register_export_def Let_def split: option.splits)

lemma lookup_export_index: "fst (lookup_export e s) \<noteq> 0"
  by (simp add: lookup_export_def register_export_def Let_def split: option.splits)


lemma malloc_keeps:
  "MU32 (snd (ASM_malloc b s)) = MU32 s"
  "calls (snd (ASM_malloc b s)) = calls s @ [Malloc b]"
  "coro_current (snd (ASM_malloc b s)) = coro_current s"
  "main_data (snd (ASM_malloc b s)) = main_data s"
  "coro_asms (snd (ASM_malloc b s)) = coro_asms s"
  "coro_nums (snd (ASM_malloc b s)) = coro_nums s"
  "coro_count (snd (ASM_malloc b s)) = coro_count s"
  "org_main (snd (ASM_malloc b s)) = org_main s"
  "fst (ASM_malloc b s) = (case heap s of [] \<Rightarrow> 0 | a # as \<Rightarrow> a)"
  by (simp_all add: ASM_malloc_def host_def split: list.splits)

lemma init_new_fields:
  "fst (WaCoroInitNew fn e u ss s) = (case heap s of [] \<Rightarrow> 0 | a # as \<Rightarrow> a)"
  "MU32 (snd (WaCoroInitNew fn e u ss s)) = (MU32 s)
     (fst (WaCoroInitNew fn e u ss s) div 4 := word_of_int (int (fst (WaCoroInitNew fn e u ss s)) + 20),
      fst (WaCoroInitNew fn e u ss s) div 4 + 1 :=
        word_of_int (int (fst (WaCoroInitNew fn e u ss s)) + 20 +
          (if ss = 0 then int (WASM_STACK_SIZE s) else sint ss)),
      fst (WaCoroInitNew fn e u ss s) div 4 + 2 := of_nat (fst (lookup_export e s)),
      fst (WaCoroInitNew fn e u ss s) div 4 + 3 := u,
      fst (WaCoroInitNew fn e u ss s) div 4 + 4 := 1)"
  "calls (snd (WaCoroInitNew fn e u ss s)) =
     calls s @ [Malloc (20 + (if ss = 0 then int (WASM_STACK_SIZE s) else sint ss))]"
  "coro_current (snd (WaCoroInitNew fn e u ss s)) = coro_current s"
  "main_data (snd (WaCoroInitNew fn e u ss s)) = main_data s"
  "org_main (snd (WaCoroInitNew fn e u ss s)) = org_main s"
  "coro_asms (snd (WaCoroInitNew fn e u ss s)) = coro_asms (snd (lookup_export e s))"
  "coro_nums (snd (WaCoroInitNew fn e u ss s)) = coro_nums (snd (lookup_export e s))"
  "coro_count (snd (WaCoroInitNew fn e u ss s)) = coro_count (snd (lookup_export e s))"
  by (simp_all add: WaCoroInitNew_def Let_def split_beta malloc_keeps lookup_export_keeps)

lemma iter_entering:
  assumes "MU32 s (nptr_of s) = 1"
  shows "CoroHandler_iter s =
     (if MU32 s (nptr_of s - 2) \<noteq> 0
      then (case coro_asms s (unat (MU32 s (nptr_of s - 2))) of
              Some f \<Rightarrow> Invoke (Export f (MU32 s (nptr_of s - 1)))
            | None \<Rightarrow> TypeError)
      else (case org_main s of Some f \<Rightarrow> Invoke (OrgMain f) | None \<Rightarrow> TypeError),
      s\<lparr>calls := calls s @ [AsyncifyStopUnwind]\<rparr>)"
  using assms by (simp add: CoroHandler_iter_def Let_def host_def split: option.splits)

lemma iter_resuming:
  assumes "MU32 s (nptr_of s) = 2"
  shows "CoroHandler_iter s =
     (if MU32 s (nptr_of s - 2) \<noteq> 0
      then (case coro_asms s (unat (MU32 s (nptr_of s - 2))) of
              Some f \<Rightarrow> Invoke (Export f (MU32 s (nptr_of s - 1)))
            | None \<Rightarrow> TypeError)
      else (case org_main s of Some f \<Rightarrow> Invoke (OrgMain f) | None \<Rightarrow> TypeError),
      s\<lparr>calls := calls s @ [AsyncifyStopUnwind, AsyncifyStartRewind (js_num (coro_current s))]\<rparr>)"
  using assms by (simp add: CoroHandler_iter_def Let_def host_def split: option.splits)



lemma lookup_export_registered:
  "coro_nums (snd (lookup_export e s)) e = Some (fst (lookup_export e s))"
  by (simp add: lookup_export_def register_export_def Let_def split: option.splits)





lemma sleep_arg: "5 + (if sint (ms::i32) < 0 then 0 else sint ms) = 5 + max (sint ms) 0"
  by (simp add: max_def)



lemma ctx_keeps:
  assumes "\<not> falsy (main_data s)"
  shows "coro_current (snd (CoroCtxSwitch n s)) = coro_current s"
    and "main_data (snd (CoroCtxSwitch n s)) = main_data s"
    and "nptr_of (snd (CoroCtxSwitch n s)) = nptr_of s"
    and "heap (snd (CoroCtxSwitch n s)) = heap s"
  using assms by (simp_all add: CoroCtxSwitch_def Let_def host_def nptr_of_def)

lemma demo_oom_fields:
  "fst (WaCoroInitNew 1 2000 0 0 demo_oom) = 0"
  "map (MU32 (snd (WaCoroInitNew 1 2000 0 0 demo_oom))) [0, 1, 2, 3, 4] = [20, 65556, 1, 0, 1]"
  "coro_count (snd (WaCoroInitNew 1 2000 0 0 demo_oom)) = 1"
  "coro_asms (snd (WaCoroInitNew 1 2000 0 0 demo_oom)) 1 = Some ''FuncCoro''"
  by (simp_all add: WaCoroInitNew_def lookup_export_def register_export_def ASM_malloc_def host_def
      demo_oom_def init_lib_def Let_def)

subsection \<open>More of the sample program\<close>

lemma demo_created_eq:
  "WaCoroInitNew 1 2000 0 0 demo_start = (1024,
     \<lparr>WASM_STACK_SIZE = 65536, MStrGet = (\<lambda>p. ''FuncCoro''),
      ASM = {''main'', ''FuncCoro''}, main_data = None,
      coro_current = None, coro_count = 1, coro_nums = [2000 \<mapsto> 1],
      coro_asms = [1 \<mapsto> ''FuncCoro''], org_main = None,
      MU32 = (\<lambda>i. 0)(256 := 1044, 257 := 66580, 258 := 1, 259 := 0, 260 := 1),
      heap = [70000], calls = [Malloc 65556]\<rparr>)"
  by (simp add: WaCoroInitNew_def lookup_export_def register_export_def ASM_malloc_def host_def
      demo_start_def init_lib_def Let_def)

lemma demo_switched_eq:
  "WaCoroSwitch 1024 demo_created =
     \<lparr>WASM_STACK_SIZE = 65536, MStrGet = (\<lambda>p. ''FuncCoro''),
      ASM = {''main'', ''FuncCoro''}, main_data = Some 70000,
      coro_current = Some 1024, coro_count = 1, coro_nums = [2000 \<mapsto> 1],
      coro_asms = [1 \<mapsto> ''FuncCoro''], org_main = Some ''main'',
      MU32 = (\<lambda>i. 0)(256 := 1044, 257 := 66580, 258 := 1, 259 := 0, 260 := 1,
         17500 := 70020, 17501 := 135556, 17502 := 0, 17503 := 0, 17504 := 2),
      heap = [], calls = [Malloc 65556, Malloc 65556, AsyncifyStartUnwind 70000]\<rparr>"
  by (simp add: demo_created_def demo_created_eq WaCoroSwitch_def CoroCtxSwitch_def
      materialise_def main_export_def ASM_malloc_def host_def falsy_def nptr_of_def js_num_def Let_def)

lemma demo_enter_eq:
  "CoroHandler_iter (WaCoroSwitch 1024 demo_created) = (Invoke (Export ''FuncCoro'' 0),
     \<lparr>WASM_STACK_SIZE = 65536, MStrGet = (\<lambda>p. ''FuncCoro''),
      ASM = {''main'', ''FuncCoro''}, main_data = Some 70000,
      coro_current = Some 1024, coro_count = 1, coro_nums = [2000 \<mapsto> 1],
      coro_asms = [1 \<mapsto> ''FuncCoro''], org_main = Some ''main'',
      MU32 = (\<lambda>i. 0)(256 := 1044, 257 := 66580, 258 := 1, 259 := 0, 260 := 1,
         17500 := 70020, 17501 := 135556, 17502 := 0, 17503 := 0, 17504 := 2),
      heap = [],
      calls = [Malloc 65556, Malloc 65556, AsyncifyStartUnwind 70000, AsyncifyStopUnwind]\<rparr>)"
  by (simp add: demo_switched_eq CoroHandler_iter_def host_def nptr_of_def js_num_def Let_def)

lemma demo_in_coro_eq:
  "demo_in_coro =
     \<lparr>WASM_STACK_SIZE = 65536, MStrGet = (\<lambda>p. ''FuncCoro''),
      ASM = {''main'', ''FuncCoro''}, main_data = Some 70000,
      coro_current = Some 1024, coro_count = 1, coro_nums = [2000 \<mapsto> 1],
      coro_asms = [1 \<mapsto> ''FuncCoro''], org_main = Some ''main'',
      MU32 = (\<lambda>i. 0)(256 := 1044, 257 := 66580, 258 := 1, 259 := 0, 260 := 1,
         17500 := 70020, 17501 := 135556, 17502 := 0, 17503 := 0, 17504 := 2),
      heap = [],
      calls = [Malloc 65556, Malloc 65556, AsyncifyStartUnwind 70000, AsyncifyStopUnwind]\<rparr>"
  unfolding demo_in_coro_def demo_enter_eq by simp

lemma demo_back_eq:
  "demo_back =
     \<lparr>WASM_STACK_SIZE = 65536, MStrGet = (\<lambda>p. ''FuncCoro''),
      ASM = {''main'', ''FuncCoro''}, main_data = Some 70000,
      coro_current = Some 70000, coro_count = 1, coro_nums = [2000 \<mapsto> 1],
      coro_asms = [1 \<mapsto> ''FuncCoro''], org_main = Some ''main'',
      MU32 = (\<lambda>i. 0)(256 := 1044, 257 := 66580, 258 := 1, 259 := 0, 260 := 2,
         17500 := 70020, 17501 := 135556, 17502 := 0, 17503 := 0, 17504 := 2),
      heap = [],
      calls = [Malloc 65556, Malloc 65556, AsyncifyStartUnwind 70000, AsyncifyStopUnwind,
               AsyncifyStartUnwind 1024]\<rparr>"
  unfolding demo_back_def demo_in_coro_eq
  by (simp add: WaCoroSwitch_def CoroCtxSwitch_def
      host_def falsy_def nptr_of_def js_num_def Let_def fun_upd_twist)



subsection \<open>The loop of nanosleep\<close>

lemma nanosleep_loop_result:
  "nanosleep_loop til cur ts done = Some (c, ws) \<Longrightarrow>
   \<exists>k\<le>length ts.
     c = (cur # map to_ns ts) ! k \<and> \<not> c < til \<and>
     (\<forall>i<k. (cur # map to_ns ts) ! i < til) \<and>
     ws = done @ map (\<lambda>x. if 4500000 < til - x
                            then Sleep (ucast ((til - x - 500000) div 1000000)) else Yield)
                  (take k (cur # map to_ns ts))"
proof (induction ts arbitrary: cur "done")
  case Nil
  then show ?case by (simp split: if_splits)
next
  case (Cons t ts)
  show ?case
  proof (cases "cur < til")
    case False
    with Cons.prems have "c = cur" "ws = done" by simp_all
    with False show ?thesis by (intro exI [of _ 0]) simp
  next
    case True
    let ?call = "\<lambda>x. if 4500000 < til - x
                     then Sleep (ucast ((til - x - 500000) div 1000000)) else Yield"
    from True Cons.prems
    have "nanosleep_loop til (to_ns t) ts (done @ [?call cur]) = Some (c, ws)"
      by (simp add: Let_def)
    from Cons.IH [OF this] obtain k where k: "k \<le> length ts"
      "c = (to_ns t # map to_ns ts) ! k" "\<not> c < til"
      "\<forall>i<k. (to_ns t # map to_ns ts) ! i < til"
      "ws = (done @ [?call cur]) @ map ?call (take k (to_ns t # map to_ns ts))"
      by blast
    have "\<forall>i<Suc k. (cur # map to_ns (t # ts)) ! i < til"
      using True k(4) by (auto simp: less_Suc_eq_0_disj)
    with k show ?thesis
      by (intro exI [of _ "Suc k"]) simp
  qed
qed

lemma nanosleep_loop_returns:
  "\<exists>i\<le>length ts. \<not> (cur # map to_ns ts) ! i < til \<Longrightarrow>
   nanosleep_loop til cur ts done \<noteq> None"
proof (induction ts arbitrary: cur "done")
  case Nil
  then show ?case by simp
next
  case (Cons t ts)
  show ?case
  proof (cases "cur < til")
    case False
    then show ?thesis by simp
  next
    case True
    from Cons.prems obtain i where i: "i \<le> length (t # ts)" "\<not> (cur # map to_ns (t # ts)) ! i < til"
      by blast
    with True obtain j where "i = Suc j"
      by (cases i) auto
    with i have "\<exists>j\<le>length ts. \<not> (to_ns t # map to_ns ts) ! j < til"
      by auto
    from Cons.IH [OF this] True show ?thesis
      by (simp add: Let_def)
  qed
qed

lemma uint_small64:
  "0 \<le> k \<Longrightarrow> k < 2 ^ 64 \<Longrightarrow> uint (word_of_int k :: u64) = k"
  by (simp add: uint_word_of_int)

lemma to_ns_sum:
  "to_ns a + to_ns b =
   word_of_int (tv_sec a * 1000000000 + tv_nsec a + (tv_sec b * 1000000000 + tv_nsec b))"
  by (simp add: to_ns_def)

lemma deadline_no_wrap:
  assumes "0 \<le> tv_sec a" "0 \<le> tv_nsec a" "0 \<le> tv_sec b" "0 \<le> tv_nsec b"
    and "tv_sec a * 1000000000 + tv_nsec a + (tv_sec b * 1000000000 + tv_nsec b) < 2 ^ 64"
  shows "uint (to_ns a + to_ns b) =
     tv_sec a * 1000000000 + tv_nsec a + (tv_sec b * 1000000000 + tv_nsec b)"
  unfolding to_ns_sum
proof (rule uint_small64)
  show "0 \<le> tv_sec a * 1000000000 + tv_nsec a + (tv_sec b * 1000000000 + tv_nsec b)"
    using assms(1-4) by simp
  show "tv_sec a * 1000000000 + tv_nsec a + (tv_sec b * 1000000000 + tv_nsec b) < 2 ^ 64"
    by (rule assms(5))
qed

lemma demo_nanosleep:
  "nanosleep demo_req (Some \<lparr>tv_sec = 7, tv_nsec = 7\<rparr>) demo_clock =
     Some \<lparr>ret = 0, rem_out = Some \<lparr>tv_sec = 0, tv_nsec = 0\<rparr>,
           waits = [Sleep 9, Yield, Yield], last_cur = 5010000001\<rparr>"
  by (simp add: nanosleep_def demo_req_def demo_clock_def to_ns_def Let_def)

subsection \<open>The cursor and the main block\<close>

lemma ctx_fresh:
  assumes "falsy (main_data s)"
  shows "coro_current (snd (CoroCtxSwitch n s)) = main_data (snd (CoroCtxSwitch n s))"
    and "main_data (snd (CoroCtxSwitch n s)) = Some (fst (ASM_malloc (20 + int (WASM_STACK_SIZE s)) s))"
    and "calls (snd (CoroCtxSwitch n s)) =
           calls s @ [Malloc (20 + int (WASM_STACK_SIZE s)),
                      AsyncifyStartUnwind (fst (ASM_malloc (20 + int (WASM_STACK_SIZE s)) s))]"
    and "fst (CoroCtxSwitch n s)"
  unfolding ctx_materialising [OF assms]
  by (simp_all add: materialise_fields js_num_def)

lemma iter_keeps:
  "coro_current (snd (CoroHandler_iter s)) = coro_current s"
  "main_data (snd (CoroHandler_iter s)) = main_data s"
  by (simp_all add: CoroHandler_iter_def Let_def host_def split: option.splits)

lemma switch_unwinding:
  assumes "\<not> falsy (main_data s)" "MU32 s (nptr_of s) \<noteq> 2"
  shows "WaCoroSwitch to s =
     s\<lparr>MU32 := (MU32 s)(nptr_of s := 2),
       calls := calls s @ [AsyncifyStartUnwind (js_num (coro_current s))],
       coro_current := (if to \<noteq> 0 then Some to else main_data s)\<rparr>"
  unfolding WaCoroSwitch_def ctx_unwinding [OF assms] by simp

lemma switch_rewinding:
  assumes "\<not> falsy (main_data s)" "MU32 s (nptr_of s) = 2"
  shows "WaCoroSwitch to s =
     s\<lparr>MU32 := (MU32 s)(nptr_of s := 0), calls := calls s @ [AsyncifyStopRewind]\<rparr>"
  unfolding WaCoroSwitch_def ctx_rewinding [OF assms] by simp

lemma switch_fresh:
  assumes "falsy (main_data s)"
  shows "coro_current (WaCoroSwitch to s) =
           (if to \<noteq> 0 then Some to else main_data (WaCoroSwitch to s))"
    and "main_data (WaCoroSwitch to s) = Some (fst (ASM_malloc (20 + int (WASM_STACK_SIZE s)) s))"
  unfolding WaCoroSwitch_def ctx_materialising [OF assms]
  by (simp_all add: materialise_fields)

lemma switch_main_data:
  "\<not> falsy (main_data s) \<Longrightarrow> main_data (WaCoroSwitch to s) = main_data s"
  by (cases "MU32 s (nptr_of s) = 2") (simp_all add: switch_rewinding switch_unwinding)

lemma cursor_after_ctx:
  assumes "coro_current s = main_data s \<or> (\<exists>h\<in>H. coro_current s = Some h)"
  shows "coro_current (snd (CoroCtxSwitch n s)) = main_data (snd (CoroCtxSwitch n s)) \<or>
         (\<exists>h\<in>H. coro_current (snd (CoroCtxSwitch n s)) = Some h)"
proof (cases "falsy (main_data s)")
  case True
  then show ?thesis by (simp add: ctx_fresh(1))
next
  case False
  then show ?thesis using assms by (simp add: ctx_keeps)
qed

lemma cursor_after_switch:
  assumes "coro_current s = main_data s \<or> (\<exists>h\<in>H. coro_current s = Some h)"
    and "to = 0 \<or> to \<in> H"
  shows "coro_current (WaCoroSwitch to s) = main_data (WaCoroSwitch to s) \<or>
         (\<exists>h\<in>H. coro_current (WaCoroSwitch to s) = Some h)"
proof (cases "falsy (main_data s)")
  case True
  then show ?thesis using assms(2) by (auto simp: switch_fresh(1))
next
  case False
  show ?thesis
  proof (cases "MU32 s (nptr_of s) = 2")
    case True
    with False assms(1) show ?thesis by (simp add: switch_rewinding)
  next
    case False
    with \<open>\<not> falsy (main_data s)\<close> assms(2) show ?thesis
      by (auto simp: switch_unwinding)
  qed
qed

lemma reach_cursor:
  "reach s H \<Longrightarrow> coro_current s = main_data s \<or> (\<exists>h\<in>H. coro_current s = Some h)"
proof (induction rule: reach.induct)
  case (start stack_size strs mem script)
  then show ?case by (simp add: init_lib_def)
next
  case (init_new s H fn fn_wa_export user_data stack_size res s')
  from init_new.hyps(2) have "s' = snd (WaCoroInitNew fn fn_wa_export user_data stack_size s)"
    by simp
  with init_new.IH show ?case
    by (auto simp: init_new_fields)
next
  case (free s H coro)
  then show ?case by (simp add: WaCoroFree_def host_def)
next
  case (switch s H to)
  then show ?case by (intro cursor_after_switch)
next
  case (wait_anim_frame s H)
  then show ?case unfolding WaCoroWaitAnimFrame_def by (intro cursor_after_ctx)
next
  case (yield s H)
  then show ?case unfolding WaCoroYield_def by (intro cursor_after_ctx)
next
  case (sleep s H ms)
  then show ?case unfolding WaCoroSleep_def by (intro cursor_after_ctx)
next
  case (dispatch s H)
  then show ?case by (simp add: iter_keeps)
next
  case (store s H m)
  then show ?case by simp
qed


lemma demo_reach: "reach demo_in_coro {1024}"
proof -
  have "reach demo_start {}"
    unfolding demo_start_def by (rule reach.start)
  moreover have "WaCoroInitNew 1 2000 0 0 demo_start = (1024, demo_created)"
    by (simp add: demo_created_def demo_created_eq)
  ultimately have "reach demo_created (insert 1024 {})"
    by (rule reach.init_new)
  then have "reach (WaCoroSwitch 1024 demo_created) {1024}"
    by (intro reach.switch) simp_all
  then show ?thesis
    unfolding demo_in_coro_def by (rule reach.dispatch)
qed

lemma demo_start_fields:
  "main_data demo_start = None" "coro_current demo_start = None"
  "heap demo_start = [1024, 70000]" "WASM_STACK_SIZE demo_start = 65536" "calls demo_start = []"
  by (simp_all add: demo_start_def init_lib_def)

subsection \<open>The sample program after the second switch\<close>

lemma demo_back_iter_eq:
  "CoroHandler_iter demo_back = (Invoke (OrgMain ''main''),
     \<lparr>WASM_STACK_SIZE = 65536, MStrGet = (\<lambda>p. ''FuncCoro''),
      ASM = {''main'', ''FuncCoro''}, main_data = Some 70000,
      coro_current = Some 70000, coro_count = 1, coro_nums = [2000 \<mapsto> 1],
      coro_asms = [1 \<mapsto> ''FuncCoro''], org_main = Some ''main'',
      MU32 = (\<lambda>i. 0)(256 := 1044, 257 := 66580, 258 := 1, 259 := 0, 260 := 2,
         17500 := 70020, 17501 := 135556, 17502 := 0, 17503 := 0, 17504 := 2),
      heap = [],
      calls = [Malloc 65556, Malloc 65556, AsyncifyStartUnwind 70000, AsyncifyStopUnwind,
               AsyncifyStartUnwind 1024, AsyncifyStopUnwind, AsyncifyStartRewind 70000]\<rparr>)"
  unfolding demo_back_eq
  by (simp add: CoroHandler_iter_def host_def nptr_of_def js_num_def Let_def)

lemma demo_main_resumed_eq:
  "demo_main_resumed =
     \<lparr>WASM_STACK_SIZE = 65536, MStrGet = (\<lambda>p. ''FuncCoro''),
      ASM = {''main'', ''FuncCoro''}, main_data = Some 70000,
      coro_current = Some 70000, coro_count = 1, coro_nums = [2000 \<mapsto> 1],
      coro_asms = [1 \<mapsto> ''FuncCoro''], org_main = Some ''main'',
      MU32 = (\<lambda>i. 0)(256 := 1044, 257 := 66580, 258 := 1, 259 := 0, 260 := 2,
         17500 := 70020, 17501 := 135556, 17502 := 0, 17503 := 0, 17504 := 0),
      heap = [],
      calls = [Malloc 65556, Malloc 65556, AsyncifyStartUnwind 70000, AsyncifyStopUnwind,
               AsyncifyStartUnwind 1024, AsyncifyStopUnwind, AsyncifyStartRewind 70000,
               AsyncifyStopRewind]\<rparr>"
  unfolding demo_main_resumed_def demo_back_iter_eq
  by (simp add: CoroCtxSwitch_def host_def falsy_def nptr_of_def js_num_def Let_def)

lemma demo_second_switch_eq:
  "WaCoroSwitch 1024 demo_main_resumed =
     \<lparr>WASM_STACK_SIZE = 65536, MStrGet = (\<lambda>p. ''FuncCoro''),
      ASM = {''main'', ''FuncCoro''}, main_data = Some 70000,
      coro_current = Some 1024, coro_count = 1, coro_nums = [2000 \<mapsto> 1],
      coro_asms = [1 \<mapsto> ''FuncCoro''], org_main = Some ''main'',
      MU32 = (\<lambda>i. 0)(256 := 1044, 257 := 66580, 258 := 1, 259 := 0, 260 := 2,
         17500 := 70020, 17501 := 135556, 17502 := 0, 17503 := 0, 17504 := 2),
      heap = [],
      calls = [Malloc 65556, Malloc 65556, AsyncifyStartUnwind 70000, AsyncifyStopUnwind,
               AsyncifyStartUnwind 1024, AsyncifyStopUnwind, AsyncifyStartRewind 70000,
               AsyncifyStopRewind, AsyncifyStartUnwind 70000]\<rparr>"
  unfolding demo_main_resumed_eq
  by (simp add: WaCoroSwitch_def CoroCtxSwitch_def host_def falsy_def nptr_of_def js_num_def Let_def)

lemma demo_second_entry_eq:
  "CoroHandler_iter (WaCoroSwitch 1024 demo_main_resumed) = (Invoke (Export ''FuncCoro'' 0),
     \<lparr>WASM_STACK_SIZE = 65536, MStrGet = (\<lambda>p. ''FuncCoro''),
      ASM = {''main'', ''FuncCoro''}, main_data = Some 70000,
      coro_current = Some 1024, coro_count = 1, coro_nums = [2000 \<mapsto> 1],
      coro_asms = [1 \<mapsto> ''FuncCoro''], org_main = Some ''main'',
      MU32 = (\<lambda>i. 0)(256 := 1044, 257 := 66580, 258 := 1, 259 := 0, 260 := 2,
         17500 := 70020, 17501 := 135556, 17502 := 0, 17503 := 0, 17504 := 2),
      heap = [],
      calls = [Malloc 65556, Malloc 65556, AsyncifyStartUnwind 70000, AsyncifyStopUnwind,
               AsyncifyStartUnwind 1024, AsyncifyStopUnwind, AsyncifyStartRewind 70000,
               AsyncifyStopRewind, AsyncifyStartUnwind 70000, AsyncifyStopUnwind,
               AsyncifyStartRewind 1024]\<rparr>)"
  unfolding demo_second_switch_eq
  by (simp add: CoroHandler_iter_def host_def nptr_of_def js_num_def Let_def)

lemma demo_ended_eq:
  "demo_ended =
     \<lparr>WASM_STACK_SIZE = 65536, MStrGet = (\<lambda>p. ''FuncCoro''),
      ASM = {''main'', ''FuncCoro''}, main_data = Some 70000,
      coro_current = Some 1024, coro_count = 1, coro_nums = [2000 \<mapsto> 1],
      coro_asms = [1 \<mapsto> ''FuncCoro''], org_main = Some ''main'',
      MU32 = (\<lambda>i. 0)(256 := 1044, 257 := 66580, 258 := 1, 259 := 0, 260 := 0,
         17500 := 70020, 17501 := 135556, 17502 := 0, 17503 := 0, 17504 := 2),
      heap = [],
      calls = [Malloc 65556, Malloc 65556, AsyncifyStartUnwind 70000, AsyncifyStopUnwind,
               AsyncifyStartUnwind 1024, AsyncifyStopUnwind, AsyncifyStartRewind 70000,
               AsyncifyStopRewind, AsyncifyStartUnwind 70000, AsyncifyStopUnwind,
               AsyncifyStartRewind 1024, AsyncifyStopRewind]\<rparr>"
  unfolding demo_ended_def demo_second_entry_eq
  by (simp add: CoroCtxSwitch_def host_def falsy_def nptr_of_def js_num_def Let_def fun_upd_twist)

lemma demo_ended_switch_eq:
  "WaCoroSwitch 1024 demo_ended =
     \<lparr>WASM_STACK_SIZE = 65536, MStrGet = (\<lambda>p. ''FuncCoro''),
      ASM = {''main'', ''FuncCoro''}, main_data = Some 70000,
      coro_current = Some 1024, coro_count = 1, coro_nums = [2000 \<mapsto> 1],
      coro_asms = [1 \<mapsto> ''FuncCoro''], org_main = Some ''main'',
      MU32 = (\<lambda>i. 0)(256 := 1044, 257 := 66580, 258 := 1, 259 := 0, 260 := 2,
         17500 := 70020, 17501 := 135556, 17502 := 0, 17503 := 0, 17504 := 2),
      heap = [],
      calls = [Malloc 65556, Malloc 65556, AsyncifyStartUnwind 70000, AsyncifyStopUnwind,
               AsyncifyStartUnwind 1024, AsyncifyStopUnwind, AsyncifyStartRewind 70000,
               AsyncifyStopRewind, AsyncifyStartUnwind 70000, AsyncifyStopUnwind,
               AsyncifyStartRewind 1024, AsyncifyStopRewind, AsyncifyStartUnwind 1024]\<rparr>"
  unfolding demo_ended_eq
  by (simp add: WaCoroSwitch_def CoroCtxSwitch_def host_def falsy_def nptr_of_def js_num_def Let_def
      fun_upd_twist)

subsection \<open>Runs of the dispatcher\<close>

lemma handler_ended: "MU32 s (nptr_of s) = 0 \<Longrightarrow> CoroHandler (Suc k) run s = Some (Returned, s)"
  by (simp add: iter_ended)

lemma handler_invoke:
  "CoroHandler_iter s = (Invoke c, s1) \<Longrightarrow>
   CoroHandler (Suc k) run s = CoroHandler k run (run c s1)"
  by simp

lemma iter_resuming_state:
  assumes "MU32 s (nptr_of s) = 2"
  shows "snd (CoroHandler_iter s) =
     s\<lparr>calls := calls s @ [AsyncifyStopUnwind, AsyncifyStartRewind (js_num (coro_current s))]\<rparr>"
  by (simp add: iter_resuming [OF assms])

lemma iter_calls_irrelevant:
  "fst (CoroHandler_iter (s\<lparr>calls := cs\<rparr>)) = fst (CoroHandler_iter s)"
  by (simp add: CoroHandler_iter_def Let_def host_def nptr_of_def split: option.splits)

lemma handler_reenters_forever:
  "MU32 s (nptr_of s) = 1 \<Longrightarrow> fst (CoroHandler_iter s) = Invoke c \<Longrightarrow>
   CoroHandler k (\<lambda>c s. s) s = None"
proof (induction k arbitrary: s)
  case 0
  then show ?case by simp
next
  case (Suc k)
  let ?s1 = "s\<lparr>calls := calls s @ [AsyncifyStopUnwind]\<rparr>"
  have it: "CoroHandler_iter s = (Invoke c, ?s1)"
    using Suc.prems by (simp add: iter_entering)
  have "MU32 ?s1 (nptr_of ?s1) = 1"
    using Suc.prems(1) by (simp add: nptr_of_def)
  moreover have "fst (CoroHandler_iter ?s1) = Invoke c"
    using Suc.prems(2) by (simp only: iter_calls_irrelevant)
  ultimately have "CoroHandler k (\<lambda>c s. s) ?s1 = None"
    by (rule Suc.IH)
  then show ?case
    unfolding handler_invoke [OF it] .
qed


subsection \<open>One pass of the dispatcher loop\<close>






subsection \<open>The block of the main context\<close>



subsection \<open>The cursor between suspension points\<close>

lemma between_keeps:
  "between s t \<Longrightarrow> coro_current t = coro_current s \<and> main_data t = main_data s"
  by (induction rule: between.induct)
     (simp_all add: init_new_fields iter_keeps WaCoroFree_def host_def)

lemma ctx_main_data_set:
  "main_data (snd (CoroCtxSwitch n s)) \<noteq> None"
  by (cases "falsy (main_data s)") (auto simp: ctx_fresh(2) ctx_keeps falsy_def)

lemma switch_main_data_set:
  "main_data (WaCoroSwitch to s) \<noteq> None"
  by (cases "falsy (main_data s)") (auto simp: switch_fresh(2) switch_main_data falsy_def)

lemma reach_unset:
  "reach s H \<Longrightarrow> main_data s = None \<Longrightarrow> coro_current s = None"
proof (induction rule: reach.induct)
  case (start stack_size strs exports mem script)
  then show ?case by (simp add: init_lib_def)
next
  case (init_new s H fn fn_wa_export user_data stack_size res s')
  from init_new.hyps(2) have "s' = snd (WaCoroInitNew fn fn_wa_export user_data stack_size s)"
    by simp
  with init_new.IH init_new.prems show ?case
    by (simp add: init_new_fields)
next
  case (free s H coro)
  then show ?case by (simp add: WaCoroFree_def host_def)
next
  case (switch s H to)
  then show ?case using switch_main_data_set by blast
next
  case (wait_anim_frame s H)
  then show ?case unfolding WaCoroWaitAnimFrame_def using ctx_main_data_set by blast
next
  case (yield s H)
  then show ?case unfolding WaCoroYield_def using ctx_main_data_set by blast
next
  case (sleep s H ms)
  then show ?case unfolding WaCoroSleep_def using ctx_main_data_set by blast
next
  case (dispatch s H)
  then show ?case by (simp add: iter_keeps)
next
  case (store s H m)
  then show ?case by simp
qed

lemma ctx_keeps_designation:
  assumes "reach s H" "main_data s \<noteq> Some 0"
  shows "(coro_current (snd (CoroCtxSwitch n s)) = main_data (snd (CoroCtxSwitch n s))) =
           (coro_current s = main_data s)"
    and "coro_current s \<noteq> main_data s \<Longrightarrow>
           coro_current (snd (CoroCtxSwitch n s)) = coro_current s"
proof -
  show "(coro_current (snd (CoroCtxSwitch n s)) = main_data (snd (CoroCtxSwitch n s))) =
           (coro_current s = main_data s)"
  proof (cases "main_data s")
    case None
    with reach_unset [OF assms(1)] have "coro_current s = main_data s" by simp
    moreover from None have "falsy (main_data s)" by (simp add: falsy_def)
    ultimately show ?thesis by (simp add: ctx_fresh(1))
  next
    case (Some p)
    with assms(2) have "\<not> falsy (main_data s)" by (simp add: falsy_def)
    then show ?thesis by (simp add: ctx_keeps)
  qed
  show "coro_current (snd (CoroCtxSwitch n s)) = coro_current s" if "coro_current s \<noteq> main_data s"
  proof (cases "main_data s")
    case None
    with reach_unset [OF assms(1)] that show ?thesis by simp
  next
    case (Some p)
    with assms(2) have "\<not> falsy (main_data s)" by (simp add: falsy_def)
    then show ?thesis by (simp add: ctx_keeps)
  qed
qed

lemma demo_lost_fields:
  "coro_current demo_lost = Some 1024" "main_data demo_lost = Some 0"
  "heap demo_lost = [70000]" "WASM_STACK_SIZE demo_lost = 65536"
  by (simp_all add: demo_lost_def init_lib_def WaCoroInitNew_def lookup_export_def
      register_export_def WaCoroSwitch_def CoroCtxSwitch_def materialise_def main_export_def
      ASM_malloc_def host_def nptr_of_def js_num_def falsy_def Let_def CoroHandler_iter_def
      split_beta)

lemma demo_lost_reach: "reach demo_lost {1024}"
proof -
  let ?s = "init_lib 65536 (\<lambda>p. ''FuncCoro'') {''main'', ''FuncCoro''} (\<lambda>i. 0) [1024, 0, 70000]"
  have "reach ?s {}"
    by (rule reach.start)
  moreover have "WaCoroInitNew 1 2000 0 0 ?s = (1024, snd (WaCoroInitNew 1 2000 0 0 ?s))"
    by (rule prod_eqI) (simp_all add: init_new_fields(1) init_lib_def)
  ultimately have "reach (snd (WaCoroInitNew 1 2000 0 0 ?s)) (insert 1024 {})"
    by (rule reach.init_new)
  then have "reach (WaCoroSwitch 1024 (snd (WaCoroInitNew 1 2000 0 0 ?s))) {1024}"
    by (intro reach.switch) simp_all
  then show ?thesis
    unfolding demo_lost_def by (rule reach.dispatch)
qed

subsection \<open>The host and its wake sources\<close>
















subsection \<open>The sample program asleep\<close>








subsection \<open>The dispatcher and a pending wait\<close>

text \<open>
  Claim C2. When the dispatcher is invoked and the state word of the current coroutine
  is a pending wait (3, 4, or 5 plus a number of milliseconds), it arms exactly one wake
  source, the one that belongs to the state (\<^verbatim>\<open>requestAnimationFrame\<close> for 3, a posted
  message for 4, a timer of the state minus 5 milliseconds above 4), stores 2 in the
  state word and returns: it makes no other host call, so it starts no rewind, and it
  never calls into the module, whatever the module would do (\<open>run\<close>) and however
  much fuel the loop has.
\<close>

theorem dispatcher_arms_pending_wait:
  assumes "3 \<le> MU32 s (nptr_of s)"
  shows "CoroHandler (Suc k) run s =
     Some (Returned, s\<lparr>MU32 := (MU32 s)(nptr_of s := 2),
        calls := calls s @ [if MU32 s (nptr_of s) = 3 then RequestAnimationFrame
                           else if MU32 s (nptr_of s) = 4 then PostMessage
                           else SetTimeout (uint (MU32 s (nptr_of s)) - 5)]\<rparr>)"
  by (simp add: iter_pending [OF assms])

theorem dispatcher_arms_pending_wait_witness:
  "3 \<le> MU32 (WaCoroSleep 1000 demo_start) (nptr_of (WaCoroSleep 1000 demo_start)) \<and>
   map_option (\<lambda>(r, t). (r, calls t, MU32 t 260))
     (CoroHandler (Suc 0) (\<lambda>c t. t) (WaCoroSleep 1000 demo_start)) =
   Some (Returned, [Malloc 65556, AsyncifyStartUnwind 1024, SetTimeout 1000], 2)"
proof -
  have n: "nptr_of (WaCoroSleep 1000 demo_start) = 260"
    by (simp add: nptr_of_def js_num_def demo_sleeping)
  have h: "3 \<le> MU32 (WaCoroSleep 1000 demo_start) (nptr_of (WaCoroSleep 1000 demo_start))"
    by (simp add: n demo_sleeping)
  show ?thesis
    using h dispatcher_arms_pending_wait [OF h, of 0 "\<lambda>c t. t"]
    by (simp add: n demo_sleeping)
qed

subsection \<open>The state word of a resumed coroutine\<close>

text \<open>
  Claim C9. Whenever \<^verbatim>\<open>CoroCtxSwitch\<close> finds the state word of the current coroutine to
  be 2, which is the one case in which it returns \<^verbatim>\<open>false\<close> and the replayed suspend
  call goes on into the coroutine, it has stored 0 in that state word and stopped the
  rewind, and has done nothing else. 0 is the value of a coroutine that has ended: on
  that state the dispatcher returns at once, so a running resumed coroutine cannot be
  told from an ended one by its state word.
\<close>

theorem rewind_completion_clears_wake_state:
  assumes "\<not> fst (CoroCtxSwitch n s)"
  shows "\<not> falsy (main_data s) \<and> MU32 s (nptr_of s) = 2 \<and>
     snd (CoroCtxSwitch n s) =
       s\<lparr>MU32 := (MU32 s)(nptr_of s := 0), calls := calls s @ [AsyncifyStopRewind]\<rparr> \<and>
     MU32 (snd (CoroCtxSwitch n s)) (nptr_of (snd (CoroCtxSwitch n s))) = 0 \<and>
     CoroHandler_iter (snd (CoroCtxSwitch n s)) = (Return, snd (CoroCtxSwitch n s))"
proof -
  have m: "\<not> falsy (main_data s)"
    using assms ctx_materialising [of s n] by auto
  have w: "MU32 s (nptr_of s) = 2"
  proof (rule ccontr)
    assume "MU32 s (nptr_of s) \<noteq> 2"
    from ctx_unwinding [OF m this, of n] assms show False by simp
  qed
  have e: "CoroCtxSwitch n s =
     (False, s\<lparr>MU32 := (MU32 s)(nptr_of s := 0), calls := calls s @ [AsyncifyStopRewind]\<rparr>)"
    by (rule ctx_rewinding [OF m w])
  have z: "MU32 (snd (CoroCtxSwitch n s)) (nptr_of (snd (CoroCtxSwitch n s))) = 0"
    by (simp add: e nptr_of_def)
  show ?thesis
    using m w z by (simp add: e iter_ended)
qed

theorem rewind_completion_clears_wake_state_witness:
  "\<not> fst (CoroCtxSwitch 1005 (snd (CoroHandler_iter (WaCoroSleep 1000 demo_start)))) \<and>
   MU32 (snd (CoroCtxSwitch 1005 (snd (CoroHandler_iter (WaCoroSleep 1000 demo_start))))) 260 = 0 \<and>
   fst (CoroHandler_iter (snd (CoroCtxSwitch 1005 (snd (CoroHandler_iter (WaCoroSleep 1000 demo_start)))))) = Return"
proof -
  let ?s = "snd (CoroHandler_iter (WaCoroSleep 1000 demo_start))"
  let ?t = "snd (CoroCtxSwitch 1005 ?s)"
  have n: "nptr_of ?s = 260"
    by (simp add: nptr_of_def js_num_def demo_resumed)
  have h: "\<not> fst (CoroCtxSwitch 1005 ?s)"
    by (simp add: CoroCtxSwitch_def Let_def falsy_def demo_resumed n)
  from rewind_completion_clears_wake_state [OF h]
  have e: "?t = ?s\<lparr>MU32 := (MU32 ?s)(nptr_of ?s := 0), calls := calls ?s @ [AsyncifyStopRewind]\<rparr>"
    and r: "CoroHandler_iter ?t = (Return, ?t)"
    by blast+
  have z: "MU32 ?t 260 = 0"
    by (subst e) (simp add: n)
  have "fst (CoroHandler_iter ?t) = Return"
    by (simp only: r fst_conv)
  with h z show ?thesis by blast
qed

subsection \<open>Freeing a coroutine\<close>

text \<open>
  Claim C10. \<^verbatim>\<open>WaCoroFree\<close> passes the handle to \<^verbatim>\<open>free\<close> of the module and does nothing
  else, for every handle and every state: it reads no word of the memory, so it
  proceeds in the same way whatever the state word of the coroutine is, and it leaves
  the memory as it is.
\<close>

theorem free_ignores_wake_state:
  "WaCoroFree coro s = s\<lparr>calls := calls s @ [Free coro]\<rparr> \<and>
   WaCoroFree coro (s\<lparr>MU32 := m\<rparr>) = (WaCoroFree coro s)\<lparr>MU32 := m\<rparr> \<and>
   MU32 (WaCoroFree coro s) = MU32 s"
  by (simp add: WaCoroFree_def host_def)

subsection \<open>First entry\<close>





subsection \<open>Sleeping\<close>





subsection \<open>Creation when the allocator fails\<close>

text \<open>
  Claim C5, amended. When \<^verbatim>\<open>malloc\<close> fails (returns 0), \<^verbatim>\<open>WaCoroInitNew\<close> returns the
  null handle 0, so the caller can detect the failure. It has no check of its own: by
  then it has registered the export (if it was not registered) and called \<^verbatim>\<open>malloc\<close>,
  and it stores the five words of the control block at the word indices 0 to 4, the
  bytes 0 to 19 of the memory.
\<close>

theorem init_new_on_failed_allocation:
  assumes "heap s = [] \<or> (\<exists>as. heap s = 0 # as)"
  shows "fst (WaCoroInitNew fn e u ss s) = 0 \<and>
     MU32 (snd (WaCoroInitNew fn e u ss s)) = (MU32 s)
       (0 := 20,
        1 := word_of_int (20 + (if ss = 0 then int (WASM_STACK_SIZE s) else sint ss)),
        2 := of_nat (fst (lookup_export e s)),
        3 := u,
        4 := 1) \<and>
     calls (snd (WaCoroInitNew fn e u ss s)) =
       calls s @ [Malloc (20 + (if ss = 0 then int (WASM_STACK_SIZE s) else sint ss))] \<and>
     coro_nums (snd (WaCoroInitNew fn e u ss s)) e = Some (fst (lookup_export e s)) \<and>
     fst (lookup_export e s) \<noteq> 0"
proof -
  have z: "fst (WaCoroInitNew fn e u ss s) = 0"
    using assms by (auto simp: init_new_fields(1))
  have m: "MU32 (snd (WaCoroInitNew fn e u ss s)) = (MU32 s)
       (0 := 20,
        1 := word_of_int (20 + (if ss = 0 then int (WASM_STACK_SIZE s) else sint ss)),
        2 := of_nat (fst (lookup_export e s)),
        3 := u,
        4 := 1)"
    by (rule ext) (auto simp: init_new_fields(2) z)
  show ?thesis
    using z m by (simp add: init_new_fields(3,8) lookup_export_registered lookup_export_index)
qed

theorem init_new_on_failed_allocation_witness:
  "(heap demo_oom = [] \<or> (\<exists>as. heap demo_oom = 0 # as)) \<and>
   fst (WaCoroInitNew 1 2000 0 0 demo_oom) = 0 \<and>
   map (MU32 (snd (WaCoroInitNew 1 2000 0 0 demo_oom))) [0, 1, 2, 3, 4] = [20, 65556, 1, 0, 1] \<and>
   calls (snd (WaCoroInitNew 1 2000 0 0 demo_oom)) = [Malloc 65556] \<and>
   coro_nums (snd (WaCoroInitNew 1 2000 0 0 demo_oom)) 2000 = Some 1"
proof -
  have h: "heap demo_oom = [] \<or> (\<exists>as. heap demo_oom = 0 # as)"
    by (simp add: demo_oom_def init_lib_def)
  have l: "fst (lookup_export 2000 demo_oom) = 1"
    by (simp add: demo_oom_def init_lib_def lookup_export_def register_export_def Let_def)
  have f: "MU32 demo_oom = (\<lambda>i. 0)" "calls demo_oom = []" "WASM_STACK_SIZE demo_oom = 65536"
    by (simp_all add: demo_oom_def init_lib_def)
  show ?thesis
    using h init_new_on_failed_allocation [OF h, of 1 2000 0 0]
    by (simp add: l f)
qed

text \<open>
  The claim as first stated, that a failed allocation is followed by no other action,
  fails on the sample program with an empty allocator: the call returns 0, and
  afterwards the words 0 to 4 of the memory are changed and the export is registered.
\<close>

theorem init_new_silent_on_failed_allocation_counterexample:
  "fst (WaCoroInitNew 1 2000 0 0 demo_oom) = 0 \<and>
   map (MU32 demo_oom) [0, 1, 2, 3, 4] = [0, 0, 0, 0, 0] \<and>
   map (MU32 (snd (WaCoroInitNew 1 2000 0 0 demo_oom))) [0, 1, 2, 3, 4] = [20, 65556, 1, 0, 1] \<and>
   coro_count demo_oom = 0 \<and>
   coro_count (snd (WaCoroInitNew 1 2000 0 0 demo_oom)) = 1 \<and>
   coro_asms demo_oom 1 = None \<and>
   coro_asms (snd (WaCoroInitNew 1 2000 0 0 demo_oom)) 1 = Some ''FuncCoro''"
  unfolding demo_oom_fields by (simp add: demo_oom_def init_lib_def)

subsection \<open>nanosleep\<close>

text \<open>
  Claim C8. Let the clock read \<open>t0\<close> when \<^verbatim>\<open>nanosleep\<close> starts. Whenever \<^verbatim>\<open>nanosleep\<close>
  returns, it returns 0, \<^verbatim>\<open>*rem\<close> holds \<open>{0, 0}\<close> if \<^verbatim>\<open>rem\<close> is not null, and the last
  reading of the clock has reached the deadline \<^verbatim>\<open>til\<close>, the start time plus the
  duration of \<^verbatim>\<open>req\<close>; every earlier reading was before the deadline, and after each
  of them, with \<open>remain\<close> the deadline minus that reading, the call made was
  \<^verbatim>\<open>WaCoroSleep((remain - 500000) / 1000000)\<close> if \<open>remain > 4500000\<close> and
  \<^verbatim>\<open>WaCoroYield()\<close> otherwise. It does return as soon as a reading of the clock has
  reached the deadline. The deadline is computed in \<^verbatim>\<open>uint64_t\<close>: it is the sum of the
  start time and the duration as numbers whenever the fields are not negative and that
  sum is below \<open>2^64\<close> nanoseconds, which is so for all fields not negative of a 32-bit
  \<^verbatim>\<open>time_t\<close> and \<^verbatim>\<open>long\<close>.
\<close>

theorem nanosleep_waits_for_deadline:
  "(\<forall>r. nanosleep req rem (t0 # ts) = Some r \<longrightarrow>
      ret r = 0 \<and>
      rem_out r = (case rem of None \<Rightarrow> None | Some x \<Rightarrow> Some \<lparr>tv_sec = 0, tv_nsec = 0\<rparr>) \<and>
      length (waits r) \<le> length ts \<and>
      last_cur r = to_ns ((t0 # ts) ! length (waits r)) \<and>
      to_ns t0 + to_ns req \<le> last_cur r \<and>
      (\<forall>i<length (waits r).
         to_ns ((t0 # ts) ! i) < to_ns t0 + to_ns req \<and>
         waits r ! i =
           (if to_ns t0 + to_ns req - to_ns ((t0 # ts) ! i) > 4500000
            then Sleep (ucast ((to_ns t0 + to_ns req - to_ns ((t0 # ts) ! i) - 500000) div 1000000))
            else Yield))) \<and>
   ((\<exists>i\<le>length ts. to_ns t0 + to_ns req \<le> to_ns ((t0 # ts) ! i)) \<longrightarrow>
      (\<exists>r. nanosleep req rem (t0 # ts) = Some r)) \<and>
   (0 \<le> tv_sec t0 \<and> 0 \<le> tv_nsec t0 \<and> 0 \<le> tv_sec req \<and> 0 \<le> tv_nsec req \<and>
    tv_sec t0 * 1000000000 + tv_nsec t0 + (tv_sec req * 1000000000 + tv_nsec req) < 2 ^ 64 \<longrightarrow>
      uint (to_ns t0 + to_ns req) =
        tv_sec t0 * 1000000000 + tv_nsec t0 + (tv_sec req * 1000000000 + tv_nsec req)) \<and>
   (0 \<le> tv_sec t0 \<and> tv_sec t0 < 2 ^ 31 \<and> 0 \<le> tv_nsec t0 \<and> tv_nsec t0 < 2 ^ 31 \<and>
    0 \<le> tv_sec req \<and> tv_sec req < 2 ^ 31 \<and> 0 \<le> tv_nsec req \<and> tv_nsec req < 2 ^ 31 \<longrightarrow>
      uint (to_ns t0 + to_ns req) =
        tv_sec t0 * 1000000000 + tv_nsec t0 + (tv_sec req * 1000000000 + tv_nsec req))"
proof -
  let ?til = "to_ns t0 + to_ns req"
  let ?call = "\<lambda>x. if 4500000 < ?til - x
                   then Sleep (ucast ((?til - x - 500000) div 1000000)) else Yield"
  have nth_ns: "(to_ns t0 # map to_ns ts) ! i = to_ns ((t0 # ts) ! i)" if "i \<le> length ts" for i
    using that by (cases i) simp_all
  have part1: "ret r = 0 \<and>
      rem_out r = (case rem of None \<Rightarrow> None | Some x \<Rightarrow> Some \<lparr>tv_sec = 0, tv_nsec = 0\<rparr>) \<and>
      length (waits r) \<le> length ts \<and>
      last_cur r = to_ns ((t0 # ts) ! length (waits r)) \<and>
      ?til \<le> last_cur r \<and>
      (\<forall>i<length (waits r).
         to_ns ((t0 # ts) ! i) < ?til \<and> waits r ! i = ?call (to_ns ((t0 # ts) ! i)))"
    if r: "nanosleep req rem (t0 # ts) = Some r" for r
  proof -
    from r obtain c ws where loop: "nanosleep_loop ?til (to_ns t0) ts [] = Some (c, ws)"
      and r_eq: "r = \<lparr>ret = 0,
                      rem_out = (case rem of None \<Rightarrow> None
                                 | Some x \<Rightarrow> Some (x\<lparr>tv_sec := 0, tv_nsec := 0\<rparr>)),
                      waits = ws, last_cur = c\<rparr>"
      by (auto simp: nanosleep_def Let_def split: option.splits)
    from nanosleep_loop_result [OF loop] obtain k where k: "k \<le> length ts"
      "c = (to_ns t0 # map to_ns ts) ! k" "\<not> c < ?til"
      "\<forall>i<k. (to_ns t0 # map to_ns ts) ! i < ?til"
      "ws = [] @ map ?call (take k (to_ns t0 # map to_ns ts))"
      by blast
    have len: "length ws = k"
      using k(1,5) by simp
    have c_eq: "c = to_ns ((t0 # ts) ! k)"
      using k(2) nth_ns [OF k(1)] by simp
    have before: "to_ns ((t0 # ts) ! i) < ?til \<and> ws ! i = ?call (to_ns ((t0 # ts) ! i))"
      if "i < k" for i
    proof -
      from that k(1) have i: "i \<le> length ts" by simp
      have w: "ws ! i = ?call ((to_ns t0 # map to_ns ts) ! i)"
        using that k(1,5) by simp
      have l: "(to_ns t0 # map to_ns ts) ! i < ?til"
        using k(4) that by blast
      show ?thesis
        using w l unfolding nth_ns [OF i] by blast
    qed
    have rem_eq: "rem_out r =
        (case rem of None \<Rightarrow> None | Some x \<Rightarrow> Some \<lparr>tv_sec = 0, tv_nsec = 0\<rparr>)"
      by (simp add: r_eq split: option.splits)
    have "?til \<le> c"
      using k(3) by simp
    with len c_eq before rem_eq k(1) show ?thesis
      by (simp add: r_eq)
  qed
  have part2: "\<exists>r. nanosleep req rem (t0 # ts) = Some r"
    if "\<exists>i\<le>length ts. ?til \<le> to_ns ((t0 # ts) ! i)"
  proof -
    from that obtain i where i: "i \<le> length ts" "?til \<le> to_ns ((t0 # ts) ! i)"
      by blast
    then have "\<exists>i\<le>length ts. \<not> (to_ns t0 # map to_ns ts) ! i < ?til"
      using nth_ns [OF i(1)] by (intro exI [of _ i]) simp
    from nanosleep_loop_returns [OF this, of "[]"]
    show ?thesis
      by (auto simp: nanosleep_def Let_def split: option.splits)
  qed
  have part3: "uint ?til =
        tv_sec t0 * 1000000000 + tv_nsec t0 + (tv_sec req * 1000000000 + tv_nsec req)"
    if "0 \<le> tv_sec t0 \<and> 0 \<le> tv_nsec t0 \<and> 0 \<le> tv_sec req \<and> 0 \<le> tv_nsec req \<and>
      tv_sec t0 * 1000000000 + tv_nsec t0 + (tv_sec req * 1000000000 + tv_nsec req) < 2 ^ 64"
    using that by (intro deadline_no_wrap) simp_all
  have part4: "uint ?til =
        tv_sec t0 * 1000000000 + tv_nsec t0 + (tv_sec req * 1000000000 + tv_nsec req)"
    if "0 \<le> tv_sec t0 \<and> tv_sec t0 < 2 ^ 31 \<and> 0 \<le> tv_nsec t0 \<and> tv_nsec t0 < 2 ^ 31 \<and>
      0 \<le> tv_sec req \<and> tv_sec req < 2 ^ 31 \<and> 0 \<le> tv_nsec req \<and> tv_nsec req < 2 ^ 31"
    using that by (intro deadline_no_wrap) simp_all
  from part1 part2 part3 part4 show ?thesis
    by blast
qed

theorem nanosleep_waits_for_deadline_witness:
  "nanosleep demo_req (Some \<lparr>tv_sec = 7, tv_nsec = 7\<rparr>) demo_clock =
     Some \<lparr>ret = 0, rem_out = Some \<lparr>tv_sec = 0, tv_nsec = 0\<rparr>,
           waits = [Sleep 9, Yield, Yield], last_cur = 5010000001\<rparr> \<and>
   (\<exists>i\<le>3. to_ns \<lparr>tv_sec = 5, tv_nsec = 0\<rparr> + to_ns demo_req \<le> to_ns (demo_clock ! i)) \<and>
   (0 \<le> tv_sec demo_req \<and> 0 \<le> tv_nsec demo_req \<and>
    5 * 1000000000 + 0 + (tv_sec demo_req * 1000000000 + tv_nsec demo_req) < (2::int) ^ 64) \<and>
   (tv_sec demo_req < 2 ^ 31 \<and> tv_nsec demo_req < 2 ^ 31) \<and>
   to_ns \<lparr>tv_sec = 5, tv_nsec = 0\<rparr> + to_ns demo_req \<le> 5010000001 \<and>
   uint (to_ns \<lparr>tv_sec = 5, tv_nsec = 0\<rparr> + to_ns demo_req) = 5010000000 \<and>
   to_ns (demo_clock ! 2) < to_ns \<lparr>tv_sec = 5, tv_nsec = 0\<rparr> + to_ns demo_req"
proof -
  let ?t0 = "\<lparr>tv_sec = 5, tv_nsec = 0\<rparr>"
  let ?ts = "[\<lparr>tv_sec = 5, tv_nsec = 9600000\<rparr>, \<lparr>tv_sec = 5, tv_nsec = 9900000\<rparr>,
              \<lparr>tv_sec = 5, tv_nsec = 10000001\<rparr>]"
  let ?rem = "Some \<lparr>tv_sec = 7, tv_nsec = 7\<rparr>"
  let ?r = "\<lparr>ret = 0, rem_out = Some \<lparr>tv_sec = 0, tv_nsec = 0\<rparr>,
           waits = [Sleep 9, Yield, Yield], last_cur = 5010000001\<rparr>"
  have dc: "demo_clock = ?t0 # ?ts"
    by (simp add: demo_clock_def)
  have h1: "nanosleep demo_req ?rem (?t0 # ?ts) = Some ?r"
    using demo_nanosleep by (simp add: dc)
  have h2: "\<exists>i\<le>length ?ts. to_ns ?t0 + to_ns demo_req \<le> to_ns ((?t0 # ?ts) ! i)"
    by (intro exI [of _ 3]) (simp add: to_ns_def demo_req_def)
  have h3: "0 \<le> tv_sec ?t0 \<and> 0 \<le> tv_nsec ?t0 \<and> 0 \<le> tv_sec demo_req \<and> 0 \<le> tv_nsec demo_req \<and>
    tv_sec ?t0 * 1000000000 + tv_nsec ?t0 + (tv_sec demo_req * 1000000000 + tv_nsec demo_req) < 2 ^ 64"
    by (simp add: demo_req_def)
  note T = nanosleep_waits_for_deadline [of demo_req ?rem ?t0 ?ts]
  from T h1 have c1: "to_ns ?t0 + to_ns demo_req \<le> last_cur ?r"
    and c4: "\<forall>i<length (waits ?r). to_ns ((?t0 # ?ts) ! i) < to_ns ?t0 + to_ns demo_req"
    by blast+
  from T h3 have c3: "uint (to_ns ?t0 + to_ns demo_req) =
      tv_sec ?t0 * 1000000000 + tv_nsec ?t0 + (tv_sec demo_req * 1000000000 + tv_nsec demo_req)"
    by blast
  have d1: "to_ns ?t0 + to_ns demo_req \<le> 5010000001"
    using c1 by simp
  have d3: "uint (to_ns ?t0 + to_ns demo_req) = 5010000000"
    unfolding c3 by (simp add: demo_req_def)
  have "(2::nat) < length (waits ?r)"
    by simp
  with c4 have "to_ns ((?t0 # ?ts) ! 2) < to_ns ?t0 + to_ns demo_req"
    by blast
  then have d4: "to_ns (demo_clock ! 2) < to_ns ?t0 + to_ns demo_req"
    by (simp add: dc)
  have e2: "\<exists>i\<le>3. to_ns ?t0 + to_ns demo_req \<le> to_ns (demo_clock ! i)"
    using h2 by (simp add: dc numeral_3_eq_3)
  have e3: "0 \<le> tv_sec demo_req \<and> 0 \<le> tv_nsec demo_req \<and>
    5 * 1000000000 + 0 + (tv_sec demo_req * 1000000000 + tv_nsec demo_req) < (2::int) ^ 64"
    using h3 by simp
  have h4: "0 \<le> tv_sec ?t0 \<and> tv_sec ?t0 < 2 ^ 31 \<and> 0 \<le> tv_nsec ?t0 \<and> tv_nsec ?t0 < 2 ^ 31 \<and>
    0 \<le> tv_sec demo_req \<and> tv_sec demo_req < 2 ^ 31 \<and> 0 \<le> tv_nsec demo_req \<and> tv_nsec demo_req < 2 ^ 31"
    by (simp add: demo_req_def)
  from T h4 have "uint (to_ns ?t0 + to_ns demo_req) =
      tv_sec ?t0 * 1000000000 + tv_nsec ?t0 + (tv_sec demo_req * 1000000000 + tv_nsec demo_req)"
    by blast
  have e4: "tv_sec demo_req < 2 ^ 31 \<and> tv_nsec demo_req < 2 ^ 31"
    using h4 by blast
  from demo_nanosleep e2 e3 e4 d1 d3 d4 show ?thesis
    by blast
qed

subsection \<open>The cursor\<close>

text \<open>
  Claim C1, amended. The cursor \<^verbatim>\<open>coro_current\<close> is one variable, and in every state that
  the library reaches from its start, with \<^verbatim>\<open>WaCoroSwitch\<close> called on \<^verbatim>\<open>NULL\<close> or on
  handles that \<^verbatim>\<open>WaCoroInitNew\<close> has returned, it designates one context: the main
  context (the cursor is equal to \<^verbatim>\<open>main_data\<close>, both still undefined before the first
  suspend operation) or one of the created coroutines. Between two suspension points,
  that is over calls of \<^verbatim>\<open>WaCoroInitNew\<close> and \<^verbatim>\<open>WaCoroFree\<close>, stores of the module and
  passes of the dispatcher, the cursor and \<^verbatim>\<open>main_data\<close> keep their values, so one and
  the same context is executing. As long as the allocation of the main block has not
  failed (\<^verbatim>\<open>main_data\<close> is not the null address), \<^verbatim>\<open>WaCoroWaitAnimFrame\<close>, \<^verbatim>\<open>WaCoroYield\<close>
  and \<^verbatim>\<open>WaCoroSleep\<close> do not change the context that the cursor designates: the main
  context stays the main context, also when the operation creates the main block, and a
  coroutine stays the cursor. The operation that changes it is a \<^verbatim>\<open>WaCoroSwitch\<close> that
  unwinds, which sets the cursor to its argument, or to \<^verbatim>\<open>main_data\<close> for \<^verbatim>\<open>NULL\<close>; a
  \<^verbatim>\<open>WaCoroSwitch\<close> that completes a rewind leaves it alone. While \<^verbatim>\<open>main_data\<close> is undefined
  or null, every suspend operation allocates the main block again and makes it the
  cursor, whatever the cursor was.
\<close>

theorem cursor_is_one_context:
  "(reach s H \<longrightarrow> coro_current s = main_data s \<or> (\<exists>h\<in>H. coro_current s = Some h)) \<and>
   (between s t \<longrightarrow> coro_current t = coro_current s \<and> main_data t = main_data s) \<and>
   (reach v G \<and> main_data v \<noteq> Some 0 \<longrightarrow>
      ((coro_current (snd (CoroCtxSwitch n v)) = main_data (snd (CoroCtxSwitch n v))) =
         (coro_current v = main_data v)) \<and>
      (coro_current v \<noteq> main_data v \<longrightarrow>
         coro_current (snd (CoroCtxSwitch n v)) = coro_current v)) \<and>
   WaCoroWaitAnimFrame v = snd (CoroCtxSwitch 3 v) \<and>
   WaCoroYield v = snd (CoroCtxSwitch 4 v) \<and>
   WaCoroSleep ms v = snd (CoroCtxSwitch (5 + max (sint ms) 0) v) \<and>
   (\<not> falsy (main_data m) \<and> MU32 m (nptr_of m) \<noteq> 2 \<longrightarrow>
      coro_current (WaCoroSwitch to m) = (if to \<noteq> 0 then Some to else main_data m) \<and>
      main_data (WaCoroSwitch to m) = main_data m) \<and>
   (\<not> falsy (main_data r) \<and> MU32 r (nptr_of r) = 2 \<longrightarrow>
      coro_current (WaCoroSwitch to r) = coro_current r \<and>
      main_data (WaCoroSwitch to r) = main_data r) \<and>
   (falsy (main_data f) \<longrightarrow>
      main_data (snd (CoroCtxSwitch n f)) = Some (fst (ASM_malloc (20 + int (WASM_STACK_SIZE f)) f)) \<and>
      coro_current (snd (CoroCtxSwitch n f)) = main_data (snd (CoroCtxSwitch n f)) \<and>
      coro_current (WaCoroSwitch to f) = (if to \<noteq> 0 then Some to else main_data (WaCoroSwitch to f)))"
proof -
  have inv: "coro_current s = main_data s \<or> (\<exists>h\<in>H. coro_current s = Some h)" if "reach s H"
    using that by (rule reach_cursor)
  have betw: "coro_current t = coro_current s \<and> main_data t = main_data s" if "between s t"
    using that by (rule between_keeps)
  have susp: "((coro_current (snd (CoroCtxSwitch n v)) = main_data (snd (CoroCtxSwitch n v))) =
         (coro_current v = main_data v)) \<and>
      (coro_current v \<noteq> main_data v \<longrightarrow>
         coro_current (snd (CoroCtxSwitch n v)) = coro_current v)"
    if "reach v G \<and> main_data v \<noteq> Some 0"
    using that ctx_keeps_designation [of v G n] by blast
  have ops: "WaCoroWaitAnimFrame v = snd (CoroCtxSwitch 3 v)"
    "WaCoroYield v = snd (CoroCtxSwitch 4 v)"
    "WaCoroSleep ms v = snd (CoroCtxSwitch (5 + max (sint ms) 0) v)"
    by (simp_all add: WaCoroWaitAnimFrame_def WaCoroYield_def WaCoroSleep_def sleep_arg)
  have sw: "coro_current (WaCoroSwitch to m) = (if to \<noteq> 0 then Some to else main_data m) \<and>
      main_data (WaCoroSwitch to m) = main_data m"
    if "\<not> falsy (main_data m) \<and> MU32 m (nptr_of m) \<noteq> 2"
    using that by (simp add: switch_unwinding)
  have rw: "coro_current (WaCoroSwitch to r) = coro_current r \<and>
      main_data (WaCoroSwitch to r) = main_data r"
    if "\<not> falsy (main_data r) \<and> MU32 r (nptr_of r) = 2"
    using that by (simp add: switch_rewinding)
  have fr: "main_data (snd (CoroCtxSwitch n f)) = Some (fst (ASM_malloc (20 + int (WASM_STACK_SIZE f)) f)) \<and>
      coro_current (snd (CoroCtxSwitch n f)) = main_data (snd (CoroCtxSwitch n f)) \<and>
      coro_current (WaCoroSwitch to f) = (if to \<noteq> 0 then Some to else main_data (WaCoroSwitch to f))"
    if "falsy (main_data f)"
    using ctx_fresh(1,2) [OF that] switch_fresh(1) [OF that] by simp
  from inv betw susp ops sw rw fr show ?thesis by blast
qed


theorem cursor_is_one_context_witness:
  "reach demo_in_coro {1024} \<and>
   between demo_in_coro (WaCoroFree 1024 (demo_in_coro\<lparr>MU32 := \<lambda>i. 0\<rparr>)) \<and>
   main_data demo_in_coro \<noteq> Some 0 \<and>
   coro_current demo_in_coro \<noteq> main_data demo_in_coro \<and>
   reach demo_start {} \<and>
   main_data demo_start \<noteq> Some 0 \<and>
   (\<not> falsy (main_data demo_in_coro) \<and> MU32 demo_in_coro (nptr_of demo_in_coro) \<noteq> 2) \<and>
   (\<not> falsy (main_data demo_back) \<and> MU32 demo_back (nptr_of demo_back) = 2) \<and>
   falsy (main_data demo_start) \<and>
   (coro_current demo_in_coro = main_data demo_in_coro \<or>
    (\<exists>h\<in>{1024}. coro_current demo_in_coro = Some h)) \<and>
   coro_current (WaCoroFree 1024 (demo_in_coro\<lparr>MU32 := \<lambda>i. 0\<rparr>)) = Some 1024 \<and>
   main_data (WaCoroFree 1024 (demo_in_coro\<lparr>MU32 := \<lambda>i. 0\<rparr>)) = Some 70000 \<and>
   coro_current (WaCoroYield demo_in_coro) = Some 1024 \<and>
   coro_current (WaCoroYield demo_in_coro) \<noteq> main_data (WaCoroYield demo_in_coro) \<and>
   coro_current (WaCoroYield demo_start) = main_data (WaCoroYield demo_start) \<and>
   coro_current (WaCoroSwitch 0 demo_in_coro) = Some 70000 \<and>
   coro_current (WaCoroSwitch 0 demo_back) = Some 70000 \<and>
   coro_current (WaCoroSwitch 0 demo_start) = Some 1024"
proof -
  have h1: "reach demo_in_coro {1024}" by (rule demo_reach)
  have hb: "between demo_in_coro (WaCoroFree 1024 (demo_in_coro\<lparr>MU32 := \<lambda>i. 0\<rparr>))"
    by (intro between.free between.store between.here)
  have hm: "main_data demo_in_coro \<noteq> Some 0"
    and hn: "coro_current demo_in_coro \<noteq> main_data demo_in_coro"
    by (simp_all add: demo_in_coro_eq)
  have h0: "reach demo_start {}"
    unfolding demo_start_def by (rule reach.start)
  have hz: "main_data demo_start \<noteq> Some 0"
    and hc: "coro_current demo_start = main_data demo_start"
    by (simp_all add: demo_start_fields)
  have h2: "\<not> falsy (main_data demo_in_coro) \<and> MU32 demo_in_coro (nptr_of demo_in_coro) \<noteq> 2"
    by (simp add: demo_in_coro_eq falsy_def nptr_of_def js_num_def)
  have h3: "\<not> falsy (main_data demo_back) \<and> MU32 demo_back (nptr_of demo_back) = 2"
    by (simp add: demo_back_eq falsy_def nptr_of_def js_num_def)
  have h4: "falsy (main_data demo_start)"
    by (simp add: demo_start_fields falsy_def)
  note T = cursor_is_one_context
    [of demo_in_coro "{1024}" "WaCoroFree 1024 (demo_in_coro\<lparr>MU32 := \<lambda>i. 0\<rparr>)"
        demo_in_coro "{1024}" 4 0 demo_in_coro 0 demo_back demo_start]
  note T' = cursor_is_one_context
    [of demo_in_coro "{1024}" "WaCoroFree 1024 (demo_in_coro\<lparr>MU32 := \<lambda>i. 0\<rparr>)"
        demo_start "{}" 4 0 demo_in_coro 0 demo_back demo_start]
  from T h1 have c1: "coro_current demo_in_coro = main_data demo_in_coro \<or>
      (\<exists>h\<in>{1024}. coro_current demo_in_coro = Some h)"
    by blast
  from T hb have b1: "coro_current (WaCoroFree 1024 (demo_in_coro\<lparr>MU32 := \<lambda>i. 0\<rparr>)) =
      coro_current demo_in_coro"
    and b2: "main_data (WaCoroFree 1024 (demo_in_coro\<lparr>MU32 := \<lambda>i. 0\<rparr>)) = main_data demo_in_coro"
    by blast+
  from T have y: "WaCoroYield demo_in_coro = snd (CoroCtxSwitch 4 demo_in_coro)"
    by blast
  from T' have y': "WaCoroYield demo_start = snd (CoroCtxSwitch 4 demo_start)"
    by blast
  from T h1 hm hn have c2: "coro_current (snd (CoroCtxSwitch 4 demo_in_coro)) = coro_current demo_in_coro"
    and c2': "coro_current (snd (CoroCtxSwitch 4 demo_in_coro)) \<noteq>
       main_data (snd (CoroCtxSwitch 4 demo_in_coro))"
    by blast+
  from T' h0 hz hc have c2s: "coro_current (snd (CoroCtxSwitch 4 demo_start)) =
       main_data (snd (CoroCtxSwitch 4 demo_start))"
    by blast
  from T h2 have c3: "coro_current (WaCoroSwitch 0 demo_in_coro) =
       (if (0::nat) \<noteq> 0 then Some 0 else main_data demo_in_coro)"
    by blast
  from T h3 have c4: "coro_current (WaCoroSwitch 0 demo_back) = coro_current demo_back"
    by blast
  from T h4 have c5: "coro_current (WaCoroSwitch 0 demo_start) =
      (if (0::nat) \<noteq> 0 then Some 0 else main_data (WaCoroSwitch 0 demo_start))"
    by blast
  have e1: "coro_current (WaCoroFree 1024 (demo_in_coro\<lparr>MU32 := \<lambda>i. 0\<rparr>)) = Some 1024"
    unfolding b1 by (simp add: demo_in_coro_eq)
  have e2: "main_data (WaCoroFree 1024 (demo_in_coro\<lparr>MU32 := \<lambda>i. 0\<rparr>)) = Some 70000"
    unfolding b2 by (simp add: demo_in_coro_eq)
  have d2: "coro_current (WaCoroYield demo_in_coro) = Some 1024"
    unfolding y c2 by (simp add: demo_in_coro_eq)
  have d2': "coro_current (WaCoroYield demo_in_coro) \<noteq> main_data (WaCoroYield demo_in_coro)"
    unfolding y by (rule c2')
  have d2s: "coro_current (WaCoroYield demo_start) = main_data (WaCoroYield demo_start)"
    unfolding y' by (rule c2s)
  have d3: "coro_current (WaCoroSwitch 0 demo_in_coro) = Some 70000"
    unfolding c3 by (simp add: demo_in_coro_eq)
  have d4: "coro_current (WaCoroSwitch 0 demo_back) = Some 70000"
    unfolding c4 by (simp add: demo_back_eq)
  have d5: "coro_current (WaCoroSwitch 0 demo_start) = Some 1024"
    unfolding c5 using h4 by (simp add: switch_fresh(2) ASM_malloc_def demo_start_fields)
  from h1 hb hm hn h0 hz h2 h3 h4 c1 e1 e2 d2 d2' d2s d3 d4 d5 show ?thesis by blast
qed

text \<open>
  The claim as first stated, that no operation other than \<^verbatim>\<open>WaCoroSwitch\<close> changes the
  coroutine that the cursor designates, fails when the allocation of the main block has
  failed. With an allocator that returns 1024, then the null address, then 70000, the
  sample program creates the coroutine 1024 and switches to it; the main block is
  allocated at the null address, so \<^verbatim>\<open>main_data\<close> is null while the coroutine runs. A
  \<^verbatim>\<open>WaCoroYield\<close>, \<^verbatim>\<open>WaCoroSleep\<close> or \<^verbatim>\<open>WaCoroWaitAnimFrame\<close> of the coroutine then
  allocates the main block at 70000 and moves the cursor from the coroutine to it.
\<close>

theorem cursor_moved_by_yield_counterexample:
  "reach demo_lost {1024} \<and>
   main_data demo_lost = Some 0 \<and>
   coro_current demo_lost = Some 1024 \<and>
   coro_current (WaCoroYield demo_lost) = Some 70000 \<and>
   main_data (WaCoroYield demo_lost) = Some 70000 \<and>
   coro_current (WaCoroSleep 11 demo_lost) = Some 70000 \<and>
   coro_current (WaCoroWaitAnimFrame demo_lost) = Some 70000"
proof -
  have f: "falsy (main_data demo_lost)"
    by (simp add: demo_lost_fields falsy_def)
  have "coro_current (snd (CoroCtxSwitch n demo_lost)) = Some 70000"
    "main_data (snd (CoroCtxSwitch n demo_lost)) = Some 70000" for n
    unfolding ctx_fresh(1) [OF f] ctx_fresh(2) [OF f]
    by (simp_all add: ASM_malloc_def demo_lost_fields)
  then show ?thesis
    using demo_lost_reach
    by (simp add: WaCoroYield_def WaCoroSleep_def WaCoroWaitAnimFrame_def demo_lost_fields)
qed


subsection \<open>The main block\<close>






subsection \<open>A coroutine that has ended\<close>

text \<open>
  Claim C6, amended. Take a coroutine that is being resumed: its state word is 2 and the
  dispatcher calls its function, in which the replayed suspend call completes the
  rewind. If the function then returns without another call of the library, the
  dispatcher finds the state word 0 and returns, having called the function once. On
  the state word 0 every invocation of the dispatcher returns at once, with no host
  call and no call into the module. A switch into a coroutine that has ended is not
  rejected and not asserted: \<^verbatim>\<open>WaCoroSwitch\<close> does not read the state word of its target;
  it suspends the caller with the state word 2 and makes the target the cursor, as for
  any other handle.
\<close>

theorem ended_after_resume_and_return:
  "(\<not> falsy (main_data s) \<and> MU32 s (nptr_of s) = 2 \<and> fst (CoroHandler_iter s) = Invoke c \<and>
    run c (snd (CoroHandler_iter s)) = snd (CoroCtxSwitch n (snd (CoroHandler_iter s))) \<longrightarrow>
      CoroHandler (Suc (Suc k)) run s =
        Some (Returned,
          s\<lparr>MU32 := (MU32 s)(nptr_of s := 0),
            calls := calls s @ [AsyncifyStopUnwind, AsyncifyStartRewind (js_num (coro_current s)),
                                AsyncifyStopRewind]\<rparr>)) \<and>
   (MU32 t (nptr_of t) = 0 \<longrightarrow> CoroHandler (Suc k) run' t = Some (Returned, t)) \<and>
   (\<not> falsy (main_data m) \<and> MU32 m (nptr_of m) \<noteq> 2 \<and> to \<noteq> 0 \<longrightarrow>
      WaCoroSwitch to m =
        m\<lparr>MU32 := (MU32 m)(nptr_of m := 2),
          calls := calls m @ [AsyncifyStartUnwind (js_num (coro_current m))],
          coro_current := Some to\<rparr>)"
proof -
  have resumed: "CoroHandler (Suc (Suc k)) run s =
        Some (Returned,
          s\<lparr>MU32 := (MU32 s)(nptr_of s := 0),
            calls := calls s @ [AsyncifyStopUnwind, AsyncifyStartRewind (js_num (coro_current s)),
                                AsyncifyStopRewind]\<rparr>)"
    if a: "\<not> falsy (main_data s) \<and> MU32 s (nptr_of s) = 2 \<and> fst (CoroHandler_iter s) = Invoke c \<and>
      run c (snd (CoroHandler_iter s)) = snd (CoroCtxSwitch n (snd (CoroHandler_iter s)))"
  proof -
    let ?s1 = "s\<lparr>calls := calls s @ [AsyncifyStopUnwind, AsyncifyStartRewind (js_num (coro_current s))]\<rparr>"
    let ?s2 = "s\<lparr>MU32 := (MU32 s)(nptr_of s := 0),
            calls := calls s @ [AsyncifyStopUnwind, AsyncifyStartRewind (js_num (coro_current s)),
                                AsyncifyStopRewind]\<rparr>"
    from a have st: "MU32 s (nptr_of s) = 2" by blast
    have s1: "snd (CoroHandler_iter s) = ?s1"
      by (rule iter_resuming_state [OF st])
    from a s1 have it: "CoroHandler_iter s = (Invoke c, ?s1)"
      by (metis prod.collapse)
    have m1: "\<not> falsy (main_data ?s1)" "MU32 ?s1 (nptr_of ?s1) = 2"
      using a by (simp_all add: nptr_of_def)
    have "run c ?s1 = snd (CoroCtxSwitch n ?s1)"
      using a s1 by simp
    also have "\<dots> = ?s2"
      unfolding ctx_rewinding [OF m1] by (simp add: nptr_of_def)
    finally have r: "run c ?s1 = ?s2" .
    have e: "MU32 ?s2 (nptr_of ?s2) = 0"
      by (simp add: nptr_of_def)
    show ?thesis
      unfolding handler_invoke [OF it] r by (rule handler_ended [OF e])
  qed
  have stays: "CoroHandler (Suc k) run' t = Some (Returned, t)" if "MU32 t (nptr_of t) = 0"
    using that by (rule handler_ended)
  have sw: "WaCoroSwitch to m =
        m\<lparr>MU32 := (MU32 m)(nptr_of m := 2),
          calls := calls m @ [AsyncifyStartUnwind (js_num (coro_current m))],
          coro_current := Some to\<rparr>"
    if "\<not> falsy (main_data m) \<and> MU32 m (nptr_of m) \<noteq> 2 \<and> to \<noteq> 0"
    using that by (simp add: switch_unwinding)
  from resumed stays sw show ?thesis by blast
qed

theorem ended_after_resume_and_return_witness:
  "(\<not> falsy (main_data (WaCoroSwitch 1024 demo_main_resumed)) \<and>
    MU32 (WaCoroSwitch 1024 demo_main_resumed) (nptr_of (WaCoroSwitch 1024 demo_main_resumed)) = 2 \<and>
    fst (CoroHandler_iter (WaCoroSwitch 1024 demo_main_resumed)) = Invoke (Export ''FuncCoro'' 0)) \<and>
   MU32 demo_ended (nptr_of demo_ended) = 0 \<and>
   (\<not> falsy (main_data demo_main_resumed) \<and>
    MU32 demo_main_resumed (nptr_of demo_main_resumed) \<noteq> 2 \<and> (1024::nat) \<noteq> 0) \<and>
   CoroHandler (Suc (Suc 0)) (\<lambda>c s. snd (CoroCtxSwitch 2 s)) (WaCoroSwitch 1024 demo_main_resumed) =
     Some (Returned, demo_ended) \<and>
   CoroHandler (Suc 0) (\<lambda>c s. s) demo_ended = Some (Returned, demo_ended) \<and>
   coro_current (WaCoroSwitch 1024 demo_main_resumed) = Some 1024"
proof -
  let ?s = "WaCoroSwitch 1024 demo_main_resumed"
  let ?run = "\<lambda>(c::callee) s. snd (CoroCtxSwitch 2 s)"
  have h1: "\<not> falsy (main_data ?s) \<and> MU32 ?s (nptr_of ?s) = 2 \<and>
      fst (CoroHandler_iter ?s) = Invoke (Export ''FuncCoro'' 0)"
    by (simp add: demo_second_entry_eq) (simp add: demo_second_switch_eq falsy_def nptr_of_def js_num_def)
  have h1': "?run (Export ''FuncCoro'' 0) (snd (CoroHandler_iter ?s)) =
      snd (CoroCtxSwitch 2 (snd (CoroHandler_iter ?s)))"
    by simp
  have h2: "MU32 demo_ended (nptr_of demo_ended) = 0"
    by (simp add: demo_ended_eq nptr_of_def js_num_def)
  have h3: "\<not> falsy (main_data demo_main_resumed) \<and>
      MU32 demo_main_resumed (nptr_of demo_main_resumed) \<noteq> 2 \<and> (1024::nat) \<noteq> 0"
    by (simp add: demo_main_resumed_eq falsy_def nptr_of_def js_num_def)
  note T = ended_after_resume_and_return
    [of ?s "Export ''FuncCoro'' 0" ?run 2 0 demo_ended "\<lambda>c s. s" demo_main_resumed 1024]
  from T h1 h1' have c1: "CoroHandler (Suc (Suc 0)) ?run ?s =
        Some (Returned,
          ?s\<lparr>MU32 := (MU32 ?s)(nptr_of ?s := 0),
            calls := calls ?s @ [AsyncifyStopUnwind, AsyncifyStartRewind (js_num (coro_current ?s)),
                                AsyncifyStopRewind]\<rparr>)"
    by blast
  from T h2 have c2: "CoroHandler (Suc 0) (\<lambda>c s. s) demo_ended = Some (Returned, demo_ended)"
    by blast
  from T h3 have c3: "?s =
        demo_main_resumed\<lparr>MU32 := (MU32 demo_main_resumed)(nptr_of demo_main_resumed := 2),
          calls := calls demo_main_resumed @
            [AsyncifyStartUnwind (js_num (coro_current demo_main_resumed))],
          coro_current := Some 1024\<rparr>"
    by blast
  have e: "?s\<lparr>MU32 := (MU32 ?s)(nptr_of ?s := 0),
            calls := calls ?s @ [AsyncifyStopUnwind, AsyncifyStartRewind (js_num (coro_current ?s)),
                                AsyncifyStopRewind]\<rparr> = demo_ended"
    unfolding demo_second_switch_eq demo_ended_eq
    by (simp add: nptr_of_def js_num_def fun_upd_twist)
  have d1: "CoroHandler (Suc (Suc 0)) ?run ?s = Some (Returned, demo_ended)"
    using c1 unfolding e .
  have d3: "coro_current ?s = Some 1024"
    by (subst c3) simp
  from h1 h2 h3 d1 c2 d3 show ?thesis by blast
qed

text \<open>
  The claim as first stated fails in two ways on the sample program. If \<^verbatim>\<open>FuncCoro\<close>
  returned on its first entry, without ever suspending, its state word would still be
  1 and the dispatcher would call it again, without end. And when \<^verbatim>\<open>FuncCoro\<close> has ended
  with the state word 0 and is still the cursor, a \<^verbatim>\<open>WaCoroSwitch(coroSub)\<close> sets its
  state word to 2, and the dispatcher then starts a rewind and calls \<^verbatim>\<open>FuncCoro\<close>.
\<close>

theorem ended_coroutine_reentered_counterexample:
  "fst (CoroHandler_iter (WaCoroSwitch 1024 demo_created)) = Invoke (Export ''FuncCoro'' 0) \<and>
   MU32 (snd (CoroHandler_iter (WaCoroSwitch 1024 demo_created))) 260 = 1 \<and>
   fst (CoroHandler_iter (snd (CoroHandler_iter (WaCoroSwitch 1024 demo_created)))) =
     Invoke (Export ''FuncCoro'' 0) \<and>
   CoroHandler 100 (\<lambda>c s. s) (WaCoroSwitch 1024 demo_created) = None \<and>
   coro_current demo_ended = Some 1024 \<and>
   MU32 demo_ended 260 = 0 \<and>
   coro_current (WaCoroSwitch 1024 demo_ended) = Some 1024 \<and>
   MU32 (WaCoroSwitch 1024 demo_ended) 260 = 2 \<and>
   fst (CoroHandler_iter (WaCoroSwitch 1024 demo_ended)) = Invoke (Export ''FuncCoro'' 0) \<and>
   calls (snd (CoroHandler_iter (WaCoroSwitch 1024 demo_ended))) =
     calls demo_ended @ [AsyncifyStartUnwind 1024, AsyncifyStopUnwind, AsyncifyStartRewind 1024]"
proof -
  let ?e = "WaCoroSwitch 1024 demo_created"
  have a1: "fst (CoroHandler_iter ?e) = Invoke (Export ''FuncCoro'' 0)"
    by (simp add: demo_enter_eq)
  have a2: "MU32 (snd (CoroHandler_iter ?e)) 260 = 1"
    by (simp add: demo_enter_eq)
  have st: "MU32 ?e (nptr_of ?e) = 1"
    by (simp add: demo_switched_eq nptr_of_def js_num_def)
  have s1: "snd (CoroHandler_iter ?e) = ?e\<lparr>calls := calls ?e @ [AsyncifyStopUnwind]\<rparr>"
    by (simp add: iter_entering [OF st])
  have "fst (CoroHandler_iter (snd (CoroHandler_iter ?e))) = fst (CoroHandler_iter ?e)"
    by (simp only: s1 iter_calls_irrelevant)
  with a1 have a3: "fst (CoroHandler_iter (snd (CoroHandler_iter ?e))) = Invoke (Export ''FuncCoro'' 0)"
    by simp
  have a4: "CoroHandler 100 (\<lambda>c s. s) ?e = None"
    by (rule handler_reenters_forever [OF st a1])
  have b: "coro_current demo_ended = Some 1024" "MU32 demo_ended 260 = 0"
    by (simp_all add: demo_ended_eq)
  have c: "coro_current (WaCoroSwitch 1024 demo_ended) = Some 1024"
    "MU32 (WaCoroSwitch 1024 demo_ended) 260 = 2"
    by (simp_all add: demo_ended_switch_eq)
  have d: "fst (CoroHandler_iter (WaCoroSwitch 1024 demo_ended)) = Invoke (Export ''FuncCoro'' 0)"
    "calls (snd (CoroHandler_iter (WaCoroSwitch 1024 demo_ended))) =
     calls demo_ended @ [AsyncifyStartUnwind 1024, AsyncifyStopUnwind, AsyncifyStartRewind 1024]"
    unfolding demo_ended_switch_eq
    by (simp_all add: CoroHandler_iter_def host_def nptr_of_def js_num_def Let_def demo_ended_eq)
  from a1 a2 a3 a4 b c d show ?thesis by blast
qed

end
